theory Spec2Isabelle
  imports Main
begin

section \<open>lxd-to-incus: the migration orchestrator of cmd/lxd-to-incus/main.go\<close>

text \<open>
  The development follows \<^verbatim>\<open>cmdMigrate.Run\<close>. Go strings are byte strings and become
  \<^typ>\<open>string\<close>; a Go \<^verbatim>\<open>map[string]string\<close> becomes a partial map, where reading a missing
  key with one result gives the empty string and reading it with \<^verbatim>\<open>v, ok := m[k]\<close> gives
  \<^verbatim>\<open>ok = false\<close>.
\<close>

subsection \<open>String helpers of the Go standard library\<close>

definition HasPrefix :: "string \<Rightarrow> string \<Rightarrow> bool" where
  \<comment> \<open>\<^verbatim>\<open>strings.HasPrefix(s, prefix)\<close>\<close>
  "HasPrefix s p = (take (length p) s = p)"

fun Index :: "string \<Rightarrow> string \<Rightarrow> nat option" where
  \<comment> \<open>\<^verbatim>\<open>strings.Index(s, substr)\<close>: the first position where \<open>substr\<close> occurs, \<open>None\<close> for -1\<close>
  "Index [] sub = (if sub = [] then Some 0 else None)"
| "Index (c # s) sub =
     (if HasPrefix (c # s) sub then Some 0 else map_option Suc (Index s sub))"

definition Replace1 :: "string \<Rightarrow> string \<Rightarrow> string \<Rightarrow> string" where
  \<comment> \<open>\<^verbatim>\<open>strings.Replace(s, old, new, 1)\<close>: the first occurrence of \<open>old\<close> replaced by \<open>new\<close>;
      an empty \<open>old\<close> matches at the beginning of \<open>s\<close>\<close>
  "Replace1 s old new =
     (case Index s old of
        None \<Rightarrow> s
      | Some i \<Rightarrow> take i s @ new @ drop (i + length old) s)"

definition ValueInSlice :: "string \<Rightarrow> string list \<Rightarrow> bool" where
  \<comment> \<open>\<^verbatim>\<open>util.ValueInSlice(key, list)\<close>\<close>
  "ValueInSlice key xs = (key \<in> set xs)"

subsection \<open>Storage pools and the rewrite accumulators\<close>

record StoragePool =
  Name :: string
  Driver :: string
  Config :: "string \<rightharpoonup> string"

record DaemonPaths =
  Daemon :: string
  Logs :: string
  Cache :: string

record rewriteAcc =
  rewriteStatements :: "string list"
  rewriteCommands :: "string list list"
  rbdRenamed :: "string list"

definition lookupOr :: "(string \<rightharpoonup> string) \<Rightarrow> string \<Rightarrow> string \<Rightarrow> string" where
  \<comment> \<open>\<^verbatim>\<open>v, ok := m[k]; if !ok { v = d }\<close>\<close>
  "lookupOr m k d = (case m k of None \<Rightarrow> d | Some v \<Rightarrow> v)"

definition cephCluster :: "StoragePool \<Rightarrow> string" where
  "cephCluster pool = lookupOr (Config pool) ''ceph.cluster_name'' ''ceph''"

definition cephClient :: "StoragePool \<Rightarrow> string" where
  "cephClient pool = lookupOr (Config pool) ''ceph.user.name'' ''admin''"

definition rbdPool :: "StoragePool \<Rightarrow> string" where
  \<comment> \<open>the resolved RBD pool name, lines 214-217\<close>
  "rbdPool pool = lookupOr (Config pool) ''ceph.osd.pool_name'' (Name pool)"

definition renameCmd :: "StoragePool \<Rightarrow> string list" where
  \<comment> \<open>line 219\<close>
  "renameCmd pool =
     [''rbd'', ''rename'', ''--cluster'', cephCluster pool, ''--name'', cephClient pool,
      rbdPool pool @ ''/lxd_'' @ rbdPool pool,
      rbdPool pool @ ''/incus_'' @ rbdPool pool]"

definition poolSource :: "StoragePool \<Rightarrow> string" where
  \<comment> \<open>\<^verbatim>\<open>pool.Config["source"]\<close>, the empty string when the key is missing\<close>
  "poolSource pool = lookupOr (Config pool) ''source'' []"

definition updateStatement :: "string \<Rightarrow> string \<Rightarrow> string" where
  \<comment> \<open>\<^verbatim>\<open>fmt.Sprintf("UPDATE storage_pools_config SET value='%s' WHERE value='%s';", n, s)\<close>\<close>
  "updateStatement newSource source =
     ''UPDATE storage_pools_config SET value='' @ [CHR 0x27] @ newSource @ [CHR 0x27]
       @ '' WHERE value='' @ [CHR 0x27] @ source @ [CHR 0x27] @ '';''"

definition gatherCeph :: "StoragePool \<Rightarrow> rewriteAcc \<Rightarrow> rewriteAcc" where
  \<comment> \<open>lines 203-224: the ceph branch of the loop body\<close>
  "gatherCeph pool acc =
     (if Driver pool = ''ceph'' then
        (if \<not> ValueInSlice (Name pool) (rbdRenamed acc) then
           acc\<lparr>rewriteCommands := rewriteCommands acc @ [renameCmd pool],
               rbdRenamed := rbdRenamed acc @ [Name pool]\<rparr>
         else acc)
      else acc)"

definition gatherSource :: "string \<Rightarrow> string \<Rightarrow> StoragePool \<Rightarrow> rewriteAcc \<Rightarrow> rewriteAcc" where
  \<comment> \<open>lines 226-236: the source path of the pool; each \<^verbatim>\<open>continue\<close> leaves the
      accumulators as they are\<close>
  "gatherSource srcDaemon tgtDaemon pool acc =
     (let source = poolSource pool in
      if source = [] \<or> hd source \<noteq> CHR ''/'' then acc
      else if \<not> HasPrefix source srcDaemon then acc
      else
        (let newSource = Replace1 source srcDaemon tgtDaemon in
         acc\<lparr>rewriteStatements := rewriteStatements acc @ [updateStatement newSource source]\<rparr>))"

definition gatherPool :: "string \<Rightarrow> string \<Rightarrow> StoragePool \<Rightarrow> rewriteAcc \<Rightarrow> rewriteAcc" where
  \<comment> \<open>one iteration of the loop of lines 202-237\<close>
  "gatherPool srcDaemon tgtDaemon pool acc =
     gatherSource srcDaemon tgtDaemon pool (gatherCeph pool acc)"

fun gatherPools :: "string \<Rightarrow> string \<Rightarrow> StoragePool list \<Rightarrow> rewriteAcc \<Rightarrow> rewriteAcc" where
  "gatherPools srcDaemon tgtDaemon [] acc = acc"
| "gatherPools srcDaemon tgtDaemon (pool # pools) acc =
     gatherPools srcDaemon tgtDaemon pools (gatherPool srcDaemon tgtDaemon pool acc)"

definition noRewrites :: rewriteAcc where
  \<comment> \<open>lines 168, 169 and 201\<close>
  "noRewrites = \<lparr>rewriteStatements = [], rewriteCommands = [], rbdRenamed = []\<rparr>"

definition isRbdRename :: "string list \<Rightarrow> bool" where
  "isRbdRename cmd = (take 2 cmd = [''rbd'', ''rename''])"

definition cephPools :: "StoragePool list \<Rightarrow> StoragePool list" where
  "cephPools pools = filter (\<lambda>p. Driver p = ''ceph'') pools"

definition resolvedRbdPools :: "StoragePool list \<Rightarrow> string set" where
  \<comment> \<open>the resolved RBD pool names among the pools with driver ceph\<close>
  "resolvedRbdPools pools = rbdPool ` set (cephPools pools)"

definition eligibleSource :: "string \<Rightarrow> string \<Rightarrow> bool" where
  \<comment> \<open>an absolute path that starts with the source daemon's state directory\<close>
  "eligibleSource srcDaemon source =
     (source \<noteq> [] \<and> hd source = CHR ''/'' \<and> HasPrefix source srcDaemon)"


subsection \<open>Errors, outcomes and the world outside the process\<close>

datatype error =
    ENOENT  \<comment> \<open>an error for which \<^verbatim>\<open>os.IsNotExist\<close> holds\<close>
  | EEXIST
  | EINVAL
  | Failure string  \<comment> \<open>any other error of a collaborator\<close>
  | Errorf string "string list" "error option"
      \<comment> \<open>\<^verbatim>\<open>fmt.Errorf(format, args..., err)\<close>: the format, its \<^verbatim>\<open>%q\<close> arguments, the wrapped error\<close>

definition IsNotExist :: "error \<Rightarrow> bool" where
  "IsNotExist err = (err = ENOENT)"

datatype outcome =
    Returned "error option"  \<comment> \<open>\<^verbatim>\<open>return err\<close>; \<open>None\<close> is \<^verbatim>\<open>return nil\<close>\<close>
  | Exited nat  \<comment> \<open>\<^verbatim>\<open>os.Exit(code)\<close>\<close>
  | Panicked  \<comment> \<open>a run-time panic: a method call on a nil interface value, an index out of range\<close>

datatype anyval = StringVal string | OtherVal

record ServerInfo =
  Server :: string  \<comment> \<open>\<^verbatim>\<open>Environment.Server\<close>\<close>
  ServerClustered :: bool  \<comment> \<open>\<^verbatim>\<open>Environment.ServerClustered\<close>\<close>
  ServerConfig :: "string \<rightharpoonup> anyval"  \<comment> \<open>\<^verbatim>\<open>Config\<close>, a \<^verbatim>\<open>map[string]any\<close>\<close>

record ClusterMember =
  ServerName :: string
  Status :: string
  Message :: string

text \<open>
  Every call that leaves the process is written to a log, in order. What a collaborator
  answers may change from one call to the next, so each answer is a function of the
  number of calls made before it (\<open>now\<close>). The symbolic links of the file system are
  state: they are what the symlink repair reads and rewrites. What the program prints is
  left out. The capabilities of a source and of a target, their clients, the asker and
  the functions \<^verbatim>\<open>validate\<close>, \<^verbatim>\<open>ovnConvert\<close>, \<^verbatim>\<open>ovsConvert\<close> and \<^verbatim>\<open>migrateDatabase\<close> are
  defined outside \<^verbatim>\<open>main.go\<close> and \<^verbatim>\<open>targets.go\<close>: they are parameters, records of what each
  call answers.
\<close>

datatype event =
    SourceConnect | TargetConnect | Validate
  | SrcGetServer | SrcGetStoragePools | SrcGetClusterMembers
  | SrcGetStoragePoolNames string | SrcGetStoragePool string string
  | SrcEvacuate string
  | RunCommand "string list"
  | OvnConvert string string | OvsConvert
  | AskBool string
  | SourceStop | TargetStop | TargetStart | SourcePurge
  | Unmount string | RemoveAll string | MkdirAll string | BindMount string string
  | MigrateDatabase string | WriteFile string string
  | Remove string | ReadDir string | Readlink string | Symlink string string
  | Sleep nat
  | TgtGetClusterMembers | TgtGetServer "string option" | TgtRestore string

record world =
  trace :: "event list"
  links :: "string \<rightharpoonup> string"  \<comment> \<open>path of a symbolic link to its link target\<close>

definition now :: "world \<Rightarrow> nat" where
  "now w = length (trace w)"

definition emit :: "event \<Rightarrow> world \<Rightarrow> world" where
  "emit ev w = w\<lparr>trace := trace w @ [ev]\<rparr>"

type_synonym 'a step = "(outcome + 'a) \<times> world"

definition fail :: "error \<Rightarrow> world \<Rightarrow> 'a step" where
  \<comment> \<open>\<^verbatim>\<open>return err\<close>\<close>
  "fail err w = (Inl (Returned (Some err)), w)"

definition andThen :: "'a step \<Rightarrow> ('a \<Rightarrow> world \<Rightarrow> 'b step) \<Rightarrow> 'b step" where
  \<comment> \<open>sequencing: a step that has left the function ends the run\<close>
  "andThen r f = (case r of (Inl out, w) \<Rightarrow> (Inl out, w) | (Inr x, w) \<Rightarrow> f x w)"

record SrcClient =
  srcGetServer :: "nat \<Rightarrow> error + ServerInfo"
  srcGetStoragePools :: "nat \<Rightarrow> error + StoragePool list"
  srcGetClusterMembers :: "nat \<Rightarrow> error + ClusterMember list"
  srcGetStoragePoolNames :: "nat \<Rightarrow> string \<Rightarrow> error + string list"
    \<comment> \<open>\<^verbatim>\<open>UseTarget(member).GetStoragePoolNames()\<close>\<close>
  srcGetStoragePool :: "nat \<Rightarrow> string \<Rightarrow> string \<Rightarrow> error + StoragePool"
    \<comment> \<open>\<^verbatim>\<open>UseTarget(member).GetStoragePool(name)\<close>\<close>
  srcEvacuate :: "nat \<Rightarrow> string \<Rightarrow> error + error option"
    \<comment> \<open>\<^verbatim>\<open>UpdateClusterMemberState(member, evacuate/stop)\<close>: its error, or else what
        \<^verbatim>\<open>op.Wait()\<close> returns\<close>

record TgtClient =
  tgtGetServer :: "nat \<Rightarrow> string option \<Rightarrow> error + ServerInfo"
    \<comment> \<open>\<^verbatim>\<open>GetServer()\<close>, or \<^verbatim>\<open>UseTarget(member).GetServer()\<close> for \<open>Some member\<close>\<close>
  tgtGetClusterMembers :: "nat \<Rightarrow> error + ClusterMember list"
  tgtRestore :: "nat \<Rightarrow> string \<Rightarrow> error + error option"

record Source =
  srcPresent :: bool
  srcConnect :: "nat \<Rightarrow> error + SrcClient"
  srcPaths :: "error + DaemonPaths"
  srcStop :: "nat \<Rightarrow> error option"
  srcPurge :: "nat \<Rightarrow> error option"

record Target =
  tgtPresent :: bool
  tgtStop :: "nat \<Rightarrow> error option"
  tgtStart :: "nat \<Rightarrow> error option"
  tgtConnect :: "nat \<Rightarrow> error + TgtClient"
  tgtPaths :: "error + DaemonPaths"

record Env =
  euid :: nat
  flagYes :: bool
  flagClusterMember :: bool
  getenv :: "string \<Rightarrow> string"
  askBool :: "nat \<Rightarrow> error + bool"
  validate :: "nat \<Rightarrow> error option"
  runCommand :: "nat \<Rightarrow> string list \<Rightarrow> error + string"
  ovnConvert :: "nat \<Rightarrow> string \<Rightarrow> string \<Rightarrow> error + string list list"
  ovsConvert :: "nat \<Rightarrow> error + string list list"
  migrateDatabase :: "nat \<Rightarrow> string \<Rightarrow> error option"
  isMountPoint :: "string \<Rightarrow> bool"
  unmount :: "nat \<Rightarrow> string \<Rightarrow> error option"
  mount :: "nat \<Rightarrow> string \<Rightarrow> string \<Rightarrow> error option"
  removeAll :: "nat \<Rightarrow> string \<Rightarrow> error option"
  mkdirAll :: "nat \<Rightarrow> string \<Rightarrow> error option"
  writeFile :: "nat \<Rightarrow> string \<Rightarrow> string \<Rightarrow> error option"
  removeOther :: "nat \<Rightarrow> string \<Rightarrow> error option"
    \<comment> \<open>\<^verbatim>\<open>os.Remove\<close> of a path that is not a symbolic link\<close>
  readDir :: "nat \<Rightarrow> string \<Rightarrow> error + (string \<times> bool) list"
    \<comment> \<open>\<^verbatim>\<open>os.ReadDir\<close>: the entries' names, and whether their type is a symbolic link\<close>


subsection \<open>Paths, trees of symbolic links and the calls to the operating system\<close>

fun stringsJoin :: "string \<Rightarrow> string list \<Rightarrow> string" where
  \<comment> \<open>\<^verbatim>\<open>strings.Join(elems, sep)\<close>\<close>
  "stringsJoin sep [] = []"
| "stringsJoin sep [x] = x"
| "stringsJoin sep (x # y # ys) = x @ sep @ stringsJoin sep (y # ys)"

definition Join :: "string list \<Rightarrow> string" where
  \<comment> \<open>\<^verbatim>\<open>filepath.Join(elem...)\<close>: the non-empty elements separated by a slash. The
      normalisation of the result (\<^verbatim>\<open>filepath.Clean\<close>) is left out: it changes nothing on
      the clean directory names the program joins.\<close>
  "Join elems = stringsJoin ''/'' (filter (\<lambda>e. e \<noteq> []) elems)"

definition isSpace :: "char \<Rightarrow> bool" where
  "isSpace c = (c \<in> set [CHR 0x09, CHR 0x0A, CHR 0x0B, CHR 0x0C, CHR 0x0D, CHR 0x20])"

definition TrimSpace :: "string \<Rightarrow> string" where
  \<comment> \<open>\<^verbatim>\<open>strings.TrimSpace\<close> on ASCII white space\<close>
  "TrimSpace s = rev (dropWhile isSpace (rev (dropWhile isSpace s)))"

definition under :: "string \<Rightarrow> string \<Rightarrow> bool" where
  \<comment> \<open>the path is the root itself or lies below it\<close>
  "under root p = (p = root \<or> HasPrefix p (root @ ''/''))"

definition clearTree :: "string \<Rightarrow> (string \<rightharpoonup> string) \<Rightarrow> (string \<rightharpoonup> string)" where
  "clearTree root ls = (\<lambda>p. if under root p then None else ls p)"

definition renameTree :: "string \<Rightarrow> string \<Rightarrow> (string \<rightharpoonup> string) \<Rightarrow> (string \<rightharpoonup> string)" where
  "renameTree a b ls =
     (\<lambda>p. if under b p then ls (a @ drop (length b) p)
          else if under a p then None else ls p)"

definition bindTree :: "string \<Rightarrow> string \<Rightarrow> (string \<rightharpoonup> string) \<Rightarrow> (string \<rightharpoonup> string)" where
  "bindTree a b ls = (\<lambda>p. if under b p then ls (a @ drop (length b) p) else ls p)"

definition commandEffect :: "string list \<Rightarrow> (string \<rightharpoonup> string) \<Rightarrow> (string \<rightharpoonup> string)" where
  \<comment> \<open>what a successful command does to the symbolic links: \<^verbatim>\<open>mv a b\<close> moves the tree\<close>
  "commandEffect argv ls =
     (case argv of
        [prog, a, b] \<Rightarrow> if prog = ''mv'' then renameTree a b ls else ls
      | _ \<Rightarrow> ls)"

definition subprocessRun :: "Env \<Rightarrow> string list \<Rightarrow> world \<Rightarrow> (error + string) \<times> world" where
  \<comment> \<open>\<^verbatim>\<open>subprocess.RunCommand(name, args...)\<close>\<close>
  "subprocessRun env argv w =
     (case runCommand env (now w) argv of
        Inl err \<Rightarrow> (Inl err, emit (RunCommand argv) w)
      | Inr out \<Rightarrow>
          (Inr out, (emit (RunCommand argv) w)\<lparr>links := commandEffect argv (links w)\<rparr>))"

definition osUnmount :: "Env \<Rightarrow> string \<Rightarrow> world \<Rightarrow> error option \<times> world" where
  \<comment> \<open>\<^verbatim>\<open>unix.Unmount(path, unix.MNT_DETACH)\<close>\<close>
  "osUnmount env p w =
     (case unmount env (now w) p of
        Some err \<Rightarrow> (Some err, emit (Unmount p) w)
      | None \<Rightarrow> (None, (emit (Unmount p) w)\<lparr>links := clearTree p (links w)\<rparr>))"

definition osRemoveAll :: "Env \<Rightarrow> string \<Rightarrow> world \<Rightarrow> error option \<times> world" where
  \<comment> \<open>\<^verbatim>\<open>os.RemoveAll(path)\<close>\<close>
  "osRemoveAll env p w =
     (case removeAll env (now w) p of
        Some err \<Rightarrow> (Some err, emit (RemoveAll p) w)
      | None \<Rightarrow> (None, (emit (RemoveAll p) w)\<lparr>links := clearTree p (links w)\<rparr>))"

text \<open>
  The three operations on one symbolic link fail for the reason the table of links
  gives, and for no other: there is no link to read or to delete, or the link to create
  is there already.
\<close>

definition osRemove :: "Env \<Rightarrow> string \<Rightarrow> world \<Rightarrow> error option \<times> world" where
  \<comment> \<open>\<^verbatim>\<open>os.Remove(path)\<close>\<close>
  "osRemove env p w =
     (case links w p of
        Some t \<Rightarrow> (None, (emit (Remove p) w)\<lparr>links := (links w)(p := None)\<rparr>)
      | None \<Rightarrow> (removeOther env (now w) p, emit (Remove p) w))"

definition osReadlink :: "string \<Rightarrow> world \<Rightarrow> (error + string) \<times> world" where
  \<comment> \<open>\<^verbatim>\<open>os.Readlink(path)\<close>\<close>
  "osReadlink p w =
     (case links w p of
        None \<Rightarrow> (Inl EINVAL, emit (Readlink p) w)
      | Some t \<Rightarrow> (Inr t, emit (Readlink p) w))"

definition osSymlink :: "string \<Rightarrow> string \<Rightarrow> world \<Rightarrow> error option \<times> world" where
  \<comment> \<open>\<^verbatim>\<open>os.Symlink(target, path)\<close>\<close>
  "osSymlink t p w =
     (if links w p \<noteq> None then (Some EEXIST, emit (Symlink t p) w)
      else (None, (emit (Symlink t p) w)\<lparr>links := (links w)(p \<mapsto> t)\<rparr>))"

subsection \<open>Lines 86-165: discovery, connection, validation, paths\<close>

definition discover :: "Env \<Rightarrow> Source list \<Rightarrow> Target list \<Rightarrow> outcome + Source \<times> Target" where
  \<comment> \<open>lines 86-123; \<open>srcs\<close> and \<open>tgts\<close> are the package variables \<^verbatim>\<open>sources\<close> and \<^verbatim>\<open>targets\<close>\<close>
  "discover env srcs tgts =
     (if euid env \<noteq> 0 then
        Inl (Returned (Some (Errorf ''This tool must be run as root'' [] None)))
      else
        (case find srcPresent srcs of
           None \<Rightarrow> Inl (Returned (Some (Errorf ''No source server could be found'' [] None)))
         | Some source \<Rightarrow>
             (case find tgtPresent tgts of
                None \<Rightarrow> Inl (Returned (Some (Errorf ''No target server could be found'' [] None)))
              | Some target \<Rightarrow> Inr (source, target))))"

definition connectSource :: "Env \<Rightarrow> Source \<Rightarrow> world \<Rightarrow> (SrcClient option \<times> bool) step" where
  \<comment> \<open>lines 126-140: the source client (\<open>None\<close> is the nil interface value it is declared
      with) and \<^verbatim>\<open>clustered\<close>\<close>
  "connectSource env source w =
     (if \<not> flagClusterMember env then
        (case srcConnect source (now w) of
           Inl err \<Rightarrow>
             fail (Errorf ''Failed to connect to the source: %w'' [] (Some err))
               (emit SourceConnect w)
         | Inr c \<Rightarrow>
             (let w1 = emit SourceConnect w in
              case srcGetServer c (now w1) of
                Inl err \<Rightarrow>
                  fail (Errorf ''Failed to get source server info: %w'' [] (Some err))
                    (emit SrcGetServer w1)
              | Inr srcServerInfo \<Rightarrow>
                  (Inr (Some c, ServerClustered srcServerInfo), emit SrcGetServer w1)))
      else (Inr (None, flagClusterMember env), w))"

definition connectTarget :: "Target \<Rightarrow> world \<Rightarrow> TgtClient step" where
  \<comment> \<open>lines 142-146\<close>
  "connectTarget target w =
     (case tgtConnect target (now w) of
        Inl err \<Rightarrow>
          fail (Errorf ''Failed to connect to the target: %w'' [] (Some err))
            (emit TargetConnect w)
      | Inr targetClient \<Rightarrow> (Inr targetClient, emit TargetConnect w))"

definition validatePhase :: "Env \<Rightarrow> world \<Rightarrow> unit step" where
  \<comment> \<open>lines 148-154\<close>
  "validatePhase env w =
     (if \<not> flagClusterMember env then
        (case validate env (now w) of
           Some err \<Rightarrow> (Inl (Returned (Some err)), emit Validate w)
         | None \<Rightarrow> (Inr (), emit Validate w))
      else (Inr (), w))"

definition pathsPhase :: "Source \<Rightarrow> Target \<Rightarrow> world \<Rightarrow> (DaemonPaths \<times> DaemonPaths) step" where
  \<comment> \<open>lines 156-165\<close>
  "pathsPhase source target w =
     (case srcPaths source of
        Inl err \<Rightarrow> fail (Errorf ''Failed to get source paths: %w'' [] (Some err)) w
      | Inr sourcePaths \<Rightarrow>
          (case tgtPaths target of
             Inl err \<Rightarrow> fail (Errorf ''Failed to get target paths: %w'' [] (Some err)) w
           | Inr targetPaths \<Rightarrow> (Inr (sourcePaths, targetPaths), w)))"


subsection \<open>Lines 167-270: gathering the rewrites\<close>

fun poolsOfNames ::
  "SrcClient \<Rightarrow> string \<Rightarrow> string list \<Rightarrow> StoragePool list \<Rightarrow> world \<Rightarrow> StoragePool list step" where
  \<comment> \<open>lines 190-197\<close>
  "poolsOfNames c member [] storagePools w = (Inr storagePools, w)"
| "poolsOfNames c member (poolName # poolNames) storagePools w =
     (case srcGetStoragePool c (now w) member poolName of
        Inl err \<Rightarrow>
          fail (Errorf ''Couldn't get storage pool: %w'' [] (Some err))
            (emit (SrcGetStoragePool member poolName) w)
      | Inr pool \<Rightarrow>
          poolsOfNames c member poolNames (storagePools @ [pool])
            (emit (SrcGetStoragePool member poolName) w))"

fun poolsOfMembers ::
  "SrcClient \<Rightarrow> ClusterMember list \<Rightarrow> StoragePool list \<Rightarrow> world \<Rightarrow> StoragePool list step" where
  \<comment> \<open>lines 184-198\<close>
  "poolsOfMembers c [] storagePools w = (Inr storagePools, w)"
| "poolsOfMembers c (member # members) storagePools w =
     (case srcGetStoragePoolNames c (now w) (ServerName member) of
        Inl err \<Rightarrow>
          fail (Errorf ''Couldn't list storage pools: %w'' [] (Some err))
            (emit (SrcGetStoragePoolNames (ServerName member)) w)
      | Inr poolNames \<Rightarrow>
          andThen
            (poolsOfNames c (ServerName member) poolNames storagePools
               (emit (SrcGetStoragePoolNames (ServerName member)) w))
            (\<lambda>storagePools' w'. poolsOfMembers c members storagePools' w'))"

definition listPools :: "SrcClient option \<Rightarrow> bool \<Rightarrow> world \<Rightarrow> StoragePool list step" where
  \<comment> \<open>lines 172-199\<close>
  "listPools srcClient clustered w =
     (case srcClient of
        None \<Rightarrow> (Inl Panicked, w)
      | Some c \<Rightarrow>
          if \<not> clustered then
            (case srcGetStoragePools c (now w) of
               Inl err \<Rightarrow>
                 fail (Errorf ''Couldn't list storage pools: %w'' [] (Some err))
                   (emit SrcGetStoragePools w)
             | Inr storagePools \<Rightarrow> (Inr storagePools, emit SrcGetStoragePools w))
          else
            (case srcGetClusterMembers c (now w) of
               Inl err \<Rightarrow>
                 fail (Errorf ''Failed to retrieve the list of cluster members'' [] None)
                   (emit SrcGetClusterMembers w)
             | Inr clusterMembers \<Rightarrow>
                 poolsOfMembers c clusterMembers [] (emit SrcGetClusterMembers w)))"

definition gatherStorage ::
  "Env \<Rightarrow> SrcClient option \<Rightarrow> bool \<Rightarrow> DaemonPaths \<Rightarrow> DaemonPaths \<Rightarrow> world \<Rightarrow> rewriteAcc step" where
  \<comment> \<open>lines 167-238\<close>
  "gatherStorage env srcClient clustered sourcePaths targetPaths w =
     (if \<not> flagClusterMember env then
        andThen (listPools srcClient clustered w)
          (\<lambda>storagePools w'.
             (Inr (gatherPools (Daemon sourcePaths) (Daemon targetPaths) storagePools noRewrites),
              w'))
      else (Inr noRewrites, w))"

definition appendCommands :: "string list list \<Rightarrow> rewriteAcc \<Rightarrow> rewriteAcc" where
  "appendCommands commands rw = rw\<lparr>rewriteCommands := rewriteCommands rw @ commands\<rparr>"

definition gatherOVN :: "Env \<Rightarrow> string \<Rightarrow> rewriteAcc \<Rightarrow> world \<Rightarrow> rewriteAcc step" where
  \<comment> \<open>lines 248-262\<close>
  "gatherOVN env ovnNB rw w =
     (if \<not> flagClusterMember env then
        (case subprocessRun env
                [''ovs-vsctl'', ''get'', ''open_vswitch'', ''.'', ''external_ids:ovn-remote''] w of
           (Inl err, w1) \<Rightarrow>
             fail (Errorf ''Failed to get OVN southbound database address: %w'' [] (Some err)) w1
         | (Inr out, w1) \<Rightarrow>
             (let ovnSB = TrimSpace (filter (\<lambda>c. c \<noteq> CHR 0x22) out) in
              case ovnConvert env (now w1) ovnNB ovnSB of
                Inl err \<Rightarrow>
                  fail (Errorf ''Failed to prepare OVN conversion: %v'' [] (Some err))
                    (emit (OvnConvert ovnNB ovnSB) w1)
              | Inr commands \<Rightarrow>
                  (Inr (appendCommands commands rw), emit (OvnConvert ovnNB ovnSB) w1)))
      else (Inr rw, w))"

definition gatherOVS :: "Env \<Rightarrow> SrcClient option \<Rightarrow> rewriteAcc \<Rightarrow> world \<Rightarrow> rewriteAcc step" where
  \<comment> \<open>lines 240-270; the call of line 241 is made on whatever \<^verbatim>\<open>srcClient\<close> holds\<close>
  "gatherOVS env srcClient rw w =
     (case srcClient of
        None \<Rightarrow> (Inl Panicked, w)
      | Some c \<Rightarrow>
          (case srcGetServer c (now w) of
             Inl err \<Rightarrow>
               fail (Errorf ''Failed to get source server info: %w'' [] (Some err))
                 (emit SrcGetServer w)
           | Inr srcServerInfo \<Rightarrow>
               (let w1 = emit SrcGetServer w in
                case ServerConfig srcServerInfo ''network.ovn.northbound_connection'' of
                  Some (StringVal ovnNB) \<Rightarrow>
                    if ovnNB \<noteq> [] then
                      andThen (gatherOVN env ovnNB rw w1)
                        (\<lambda>rw' w2.
                           case ovsConvert env (now w2) of
                             Inl err \<Rightarrow>
                               fail (Errorf ''Failed to prepare OVS conversion: %v'' [] (Some err))
                                 (emit OvsConvert w2)
                           | Inr commands \<Rightarrow>
                               (Inr (appendCommands commands rw'), emit OvsConvert w2))
                    else (Inr rw, w1)
                | _ \<Rightarrow> (Inr rw, w1))))"

subsection \<open>Lines 272-340: confirmation and evacuation\<close>

definition askProceed :: "Env \<Rightarrow> string \<Rightarrow> world \<Rightarrow> unit step" where
  \<comment> \<open>\<^verbatim>\<open>ok, err := AskBool(question, "no")\<close>, \<^verbatim>\<open>return err\<close> on an error and
      \<^verbatim>\<open>os.Exit(1)\<close> on the answer no\<close>
  "askProceed env question w =
     (case askBool env (now w) of
        Inl err \<Rightarrow> (Inl (Returned (Some err)), emit (AskBool question) w)
      | Inr ok \<Rightarrow>
          if \<not> ok then (Inl (Exited 1), emit (AskBool question) w)
          else (Inr (), emit (AskBool question) w))"

definition confirmPhase :: "Env \<Rightarrow> bool \<Rightarrow> world \<Rightarrow> unit step" where
  \<comment> \<open>lines 272-316; the two branches differ in what they print\<close>
  "confirmPhase env clustered w =
     (if \<not> flagClusterMember env \<and> \<not> flagYes env then
        (if \<not> clustered then askProceed env ''Proceed with the migration? [default=no]: '' w
         else askProceed env ''Proceed with the migration? [default=no]: '' w)
      else (Inr (), w))"

fun evacuateMembers :: "SrcClient \<Rightarrow> ClusterMember list \<Rightarrow> world \<Rightarrow> unit step" where
  \<comment> \<open>lines 327-339\<close>
  "evacuateMembers c [] w = (Inr (), w)"
| "evacuateMembers c (member # members) w =
     (case srcEvacuate c (now w) (ServerName member) of
        Inl err \<Rightarrow>
          fail (Errorf ''Failed to stop workloads %q: %w'' [ServerName member] (Some err))
            (emit (SrcEvacuate (ServerName member)) w)
      | Inr (Some err) \<Rightarrow>
          fail (Errorf ''Failed to stop workloads %q: %w'' [ServerName member] (Some err))
            (emit (SrcEvacuate (ServerName member)) w)
      | Inr None \<Rightarrow> evacuateMembers c members (emit (SrcEvacuate (ServerName member)) w))"

definition evacuatePhase :: "Env \<Rightarrow> SrcClient option \<Rightarrow> bool \<Rightarrow> world \<Rightarrow> unit step" where
  \<comment> \<open>lines 318-340\<close>
  "evacuatePhase env srcClient clustered w =
     (if \<not> flagClusterMember env \<and> clustered \<and> getenv env ''CLUSTER_NO_EVACUTE'' \<noteq> ''1'' then
        (case srcClient of
           None \<Rightarrow> (Inl Panicked, w)
         | Some c \<Rightarrow>
             (case srcGetClusterMembers c (now w) of
                Inl err \<Rightarrow>
                  fail (Errorf ''Failed to retrieve the list of cluster members'' [] None)
                    (emit SrcGetClusterMembers w)
              | Inr clusterMembers \<Rightarrow>
                  evacuateMembers c clusterMembers (emit SrcGetClusterMembers w)))
      else (Inr (), w))"

subsection \<open>Lines 342-418: stop, unmount, wipe, move\<close>

definition discard :: "error \<Rightarrow> 'a \<Rightarrow> 'a" where
  \<comment> \<open>an error value that is built and then dropped: the statement
      \<^verbatim>\<open>fmt.Errorf(...)\<close> without \<^verbatim>\<open>return\<close>\<close>
  "discard err x = x"

definition stopPhase :: "Source \<Rightarrow> Target \<Rightarrow> world \<Rightarrow> unit step" where
  \<comment> \<open>lines 342-354\<close>
  "stopPhase source target w =
     (let w1 = (case srcStop source (now w) of
                  Some err \<Rightarrow>
                    discard (Errorf ''Failed to stop the source server: %w'' [] (Some err))
                      (emit SourceStop w)
                | None \<Rightarrow> emit SourceStop w);
          w2 = (case tgtStop target (now w1) of
                  Some err \<Rightarrow>
                    discard (Errorf ''Failed to stop the target server: %w'' [] (Some err))
                      (emit TargetStop w1)
                | None \<Rightarrow> emit TargetStop w1)
      in (Inr (), w2))"

fun unmountAll :: "Env \<Rightarrow> string \<Rightarrow> string list \<Rightarrow> world \<Rightarrow> world" where
  \<comment> \<open>lines 357-359: the result of each \<^verbatim>\<open>unix.Unmount\<close> is ignored\<close>
  "unmountAll env root [] w = w"
| "unmountAll env root (mnt # mnts) w =
     unmountAll env root mnts (snd (osUnmount env (Join [root, mnt]) w))"

definition unmountPhase :: "Env \<Rightarrow> DaemonPaths \<Rightarrow> world \<Rightarrow> unit step" where
  "unmountPhase env targetPaths w =
     (Inr (), unmountAll env (Daemon targetPaths) [''guestapi'', ''shmounts''] w)"

definition wipeOne :: "Env \<Rightarrow> string \<Rightarrow> world \<Rightarrow> unit step" where
  "wipeOne env p w =
     (case osRemoveAll env p w of
        (Some err, w') \<Rightarrow>
          if \<not> IsNotExist err then fail (Errorf ''Failed to remove %q: %w'' [p] (Some err)) w'
          else (Inr (), w')
      | (None, w') \<Rightarrow> (Inr (), w'))"

definition wipePhase :: "Env \<Rightarrow> DaemonPaths \<Rightarrow> world \<Rightarrow> unit step" where
  \<comment> \<open>lines 361-377\<close>
  "wipePhase env targetPaths w =
     andThen (wipeOne env (Logs targetPaths) w)
       (\<lambda>_ w1. andThen (wipeOne env (Cache targetPaths) w1)
          (\<lambda>_ w2. wipeOne env (Daemon targetPaths) w2))"

definition moveOne :: "Env \<Rightarrow> string \<Rightarrow> string \<Rightarrow> world \<Rightarrow> unit step" where
  \<comment> \<open>\<^verbatim>\<open>subprocess.RunCommand("mv", a, b)\<close> and its error\<close>
  "moveOne env a b w =
     (case subprocessRun env [''mv'', a, b] w of
        (Inl err, w') \<Rightarrow> fail (Errorf ''Failed to move %q to %q: %w'' [a, b] (Some err)) w'
      | (Inr out, w') \<Rightarrow> (Inr (), w'))"

definition moveDaemon :: "Env \<Rightarrow> DaemonPaths \<Rightarrow> DaemonPaths \<Rightarrow> world \<Rightarrow> unit step" where
  \<comment> \<open>lines 392-418\<close>
  "moveDaemon env sourcePaths targetPaths w =
     (if isMountPoint env (Daemon sourcePaths) then
        (case mkdirAll env (now w) (Daemon targetPaths) of
           Some err \<Rightarrow>
             fail (Errorf ''Failed to create target directory: %w'' [] (Some err))
               (emit (MkdirAll (Daemon targetPaths)) w)
         | None \<Rightarrow>
             (let w1 = emit (MkdirAll (Daemon targetPaths)) w in
              case mount env (now w1) (Daemon sourcePaths) (Daemon targetPaths) of
                Some err \<Rightarrow>
                  fail (Errorf ''Failed to bind mount %q to %q: %w''
                          [Daemon sourcePaths, Daemon targetPaths] (Some err))
                    (emit (BindMount (Daemon sourcePaths) (Daemon targetPaths)) w1)
              | None \<Rightarrow>
                  (let w2 = (emit (BindMount (Daemon sourcePaths) (Daemon targetPaths)) w1)
                              \<lparr>links := bindTree (Daemon sourcePaths) (Daemon targetPaths) (links w1)\<rparr>
                   in case osUnmount env (Daemon sourcePaths) w2 of
                        (Some err, w3) \<Rightarrow>
                          fail (Errorf ''Failed to unmount source mount %q: %w''
                                  [Daemon sourcePaths] (Some err)) w3
                      | (None, w3) \<Rightarrow> (Inr (), w3))))
      else moveOne env (Daemon sourcePaths) (Daemon targetPaths) w)"

definition movePhase :: "Env \<Rightarrow> DaemonPaths \<Rightarrow> DaemonPaths \<Rightarrow> world \<Rightarrow> unit step" where
  \<comment> \<open>lines 379-418\<close>
  "movePhase env sourcePaths targetPaths w =
     andThen (moveOne env (Logs sourcePaths) (Logs targetPaths) w)
       (\<lambda>_ w1. andThen (moveOne env (Cache sourcePaths) (Cache targetPaths) w1)
          (\<lambda>_ w2. moveDaemon env sourcePaths targetPaths w2))"


subsection \<open>Lines 420-501: database, rewrites, cleanup, start\<close>

definition databasePhase :: "Env \<Rightarrow> DaemonPaths \<Rightarrow> world \<Rightarrow> unit step" where
  \<comment> \<open>lines 420-425\<close>
  "databasePhase env targetPaths w =
     (let dir = Join [Daemon targetPaths, ''database''] in
      case migrateDatabase env (now w) dir of
        Some err \<Rightarrow>
          fail (Errorf ''Failed to migrate database in %q: %w'' [dir] (Some err))
            (emit (MigrateDatabase dir) w)
      | None \<Rightarrow> (Inr (), emit (MigrateDatabase dir) w))"

definition writePatch :: "Env \<Rightarrow> DaemonPaths \<Rightarrow> string list \<Rightarrow> world \<Rightarrow> unit step" where
  \<comment> \<open>lines 427-434\<close>
  "writePatch env targetPaths statements w =
     (if length statements > 0 then
        (let name = Join [Daemon targetPaths, ''database'', ''patch.global.sql''];
             content = stringsJoin [CHR 0x0A] statements @ [CHR 0x0A]
         in case writeFile env (now w) name content of
              Some err \<Rightarrow>
                fail (Errorf ''Failed to write database path: %w'' [] (Some err))
                  (emit (WriteFile name content) w)
            | None \<Rightarrow> (Inr (), emit (WriteFile name content) w))
      else (Inr (), w))"

fun runCommands :: "Env \<Rightarrow> string list list \<Rightarrow> world \<Rightarrow> unit step" where
  \<comment> \<open>lines 436-444; \<^verbatim>\<open>cmd[0]\<close> of an empty command is out of range\<close>
  "runCommands env [] w = (Inr (), w)"
| "runCommands env ([] # cmds) w = (Inl Panicked, w)"
| "runCommands env (cmd # cmds) w =
     (case subprocessRun env cmd w of
        (Inl err, w') \<Rightarrow> (Inl (Returned (Some err)), w')
      | (Inr out, w') \<Rightarrow> runCommands env cmds w')"

definition applyPhase :: "Env \<Rightarrow> DaemonPaths \<Rightarrow> rewriteAcc \<Rightarrow> world \<Rightarrow> unit step" where
  \<comment> \<open>lines 427-444\<close>
  "applyPhase env targetPaths rw w =
     andThen (writePatch env targetPaths (rewriteStatements rw) w)
       (\<lambda>_ w1. runCommands env (rewriteCommands rw) w1)"

fun removeStale :: "Env \<Rightarrow> string \<Rightarrow> string list \<Rightarrow> world \<Rightarrow> world" where
  \<comment> \<open>lines 449-452: the result of \<^verbatim>\<open>os.Remove\<close> is ignored\<close>
  "removeStale env root [] w = w"
| "removeStale env root (dir # dirs) w =
     removeStale env root dirs (snd (osRemove env (Join [root, dir]) w))"

fun removeObsolete :: "Env \<Rightarrow> string \<Rightarrow> string list \<Rightarrow> world \<Rightarrow> unit step" where
  \<comment> \<open>lines 454-459\<close>
  "removeObsolete env root [] w = (Inr (), w)"
| "removeObsolete env root (dir # dirs) w =
     (case osRemoveAll env (Join [root, dir]) w of
        (Some err, w') \<Rightarrow>
          if \<not> IsNotExist err then fail (Errorf ''Failed to delete %q: %w'' [dir] (Some err)) w'
          else removeObsolete env root dirs w'
      | (None, w') \<Rightarrow> removeObsolete env root dirs w')"

definition repairEntry ::
  "Env \<Rightarrow> string \<Rightarrow> string \<Rightarrow> string \<Rightarrow> string \<times> bool \<Rightarrow> world \<Rightarrow> unit step" where
  \<comment> \<open>lines 472-492, the body of the loop over the entries of one directory\<close>
  "repairEntry env srcDaemon tgtDaemon dir entry w =
     (let srcPath = Join [tgtDaemon, dir, fst entry] in
      if \<not> snd entry then (Inr (), w)
      else
        (case osReadlink srcPath w of
           (Inl err, w1) \<Rightarrow>
             fail (Errorf ''Failed to resolve symlink %q: %w'' [srcPath] (Some err)) w1
         | (Inr oldTarget, w1) \<Rightarrow>
             (let newTarget = Replace1 oldTarget srcDaemon tgtDaemon in
              case osRemove env srcPath w1 of
                (Some err, w2) \<Rightarrow>
                  fail (Errorf ''Failed to delete symlink %q: %w'' [srcPath] (Some err)) w2
              | (None, w2) \<Rightarrow>
                  (case osSymlink newTarget srcPath w2 of
                     (Some err, w3) \<Rightarrow>
                       fail (Errorf ''Failed to create symlink %q: %w'' [srcPath] (Some err)) w3
                   | (None, w3) \<Rightarrow> (Inr (), w3)))))"

fun repairEntries ::
  "Env \<Rightarrow> string \<Rightarrow> string \<Rightarrow> string \<Rightarrow> (string \<times> bool) list \<Rightarrow> world \<Rightarrow> unit step" where
  \<comment> \<open>lines 471-493\<close>
  "repairEntries env srcDaemon tgtDaemon dir [] w = (Inr (), w)"
| "repairEntries env srcDaemon tgtDaemon dir (entry # entries) w =
     andThen (repairEntry env srcDaemon tgtDaemon dir entry w)
       (\<lambda>_ w'. repairEntries env srcDaemon tgtDaemon dir entries w')"

fun repairDirs :: "Env \<Rightarrow> string \<Rightarrow> string \<Rightarrow> string list \<Rightarrow> world \<Rightarrow> unit step" where
  \<comment> \<open>lines 461-494\<close>
  "repairDirs env srcDaemon tgtDaemon [] w = (Inr (), w)"
| "repairDirs env srcDaemon tgtDaemon (dir # dirs) w =
     (case readDir env (now w) (Join [tgtDaemon, dir]) of
        Inl err \<Rightarrow>
          if IsNotExist err then
            repairDirs env srcDaemon tgtDaemon dirs (emit (ReadDir (Join [tgtDaemon, dir])) w)
          else
            fail (Errorf ''Failed to read entries in %q: %w'' [Join [tgtDaemon, dir]] (Some err))
              (emit (ReadDir (Join [tgtDaemon, dir])) w)
      | Inr entries \<Rightarrow>
          andThen
            (repairEntries env srcDaemon tgtDaemon dir entries
               (emit (ReadDir (Join [tgtDaemon, dir])) w))
            (\<lambda>_ w'. repairDirs env srcDaemon tgtDaemon dirs w'))"

definition instanceDirs :: "string list" where
  "instanceDirs =
     [''containers'', ''containers-snapshots'', ''snapshots'', ''virtual-machines'',
      ''virtual-machines-snapshots'']"

definition symlinkRepair :: "Env \<Rightarrow> DaemonPaths \<Rightarrow> DaemonPaths \<Rightarrow> world \<Rightarrow> unit step" where
  \<comment> \<open>lines 461-494\<close>
  "symlinkRepair env sourcePaths targetPaths w =
     repairDirs env (Daemon sourcePaths) (Daemon targetPaths) instanceDirs w"

definition cleanupPhase :: "Env \<Rightarrow> DaemonPaths \<Rightarrow> DaemonPaths \<Rightarrow> world \<Rightarrow> unit step" where
  \<comment> \<open>lines 446-494\<close>
  "cleanupPhase env sourcePaths targetPaths w =
     andThen
       (removeObsolete env (Daemon targetPaths) [''devices'', ''devlxd'', ''security'', ''shmounts'']
          (removeStale env (Daemon targetPaths) [''backups'', ''images''] w))
       (\<lambda>_ w'. symlinkRepair env sourcePaths targetPaths w')"

definition startPhase :: "Target \<Rightarrow> world \<Rightarrow> unit step" where
  \<comment> \<open>lines 496-501\<close>
  "startPhase target w =
     (case tgtStart target (now w) of
        Some err \<Rightarrow>
          fail (Errorf ''Failed to start the target server: %w'' [] (Some err)) (emit TargetStart w)
      | None \<Rightarrow> (Inr (), emit TargetStart w))"

subsection \<open>Lines 503-558: waiting for the cluster\<close>

partial_function (option) askStarted :: "Env \<Rightarrow> world \<Rightarrow> world option" where
  \<comment> \<open>lines 508-515: asked again until the answer is yes\<close>
  "askStarted env w =
     (let answer = askBool env (now w);
          w' = emit (AskBool ''The command has been started on all other servers? [default=no]: '') w
      in if answer = Inr True then Some w' else askStarted env w')"

declare askStarted.simps [code]

definition memberReady :: "error + ServerInfo \<Rightarrow> ClusterMember \<Rightarrow> bool" where
  \<comment> \<open>lines 533-548, the body of the loop over the members: \<open>True\<close> is \<^verbatim>\<open>continue\<close>,
      \<open>False\<close> is \<^verbatim>\<open>ready = false; break\<close>\<close>
  "memberReady answer member =
     (case answer of
        Inl err \<Rightarrow> False
      | Inr info \<Rightarrow>
          if Server info \<noteq> ''incus'' then False
          else if Status member = ''Evacuated''
                  \<and> Message member = ''Unavailable due to maintenance'' then True
          else if Status member = ''Online'' \<and> Message member = ''Fully operational'' then True
          else False)"

fun membersReady :: "TgtClient \<Rightarrow> ClusterMember list \<Rightarrow> world \<Rightarrow> bool \<times> world" where
  \<comment> \<open>lines 531-549\<close>
  "membersReady c [] w = (True, w)"
| "membersReady c (member # members) w =
     (if memberReady (tgtGetServer c (now w) (Some (ServerName member))) member then
        membersReady c members (emit (TgtGetServer (Some (ServerName member))) w)
      else (False, emit (TgtGetServer (Some (ServerName member))) w))"

definition pollRound :: "TgtClient \<Rightarrow> world \<Rightarrow> bool \<times> world" where
  \<comment> \<open>lines 525-549, one round: \<open>False\<close> when the list of members cannot be fetched or a
      member is not ready\<close>
  "pollRound c w =
     (case tgtGetClusterMembers c (now w) of
        Inl err \<Rightarrow> (False, emit TgtGetClusterMembers w)
      | Inr clusterMembers \<Rightarrow> membersReady c clusterMembers (emit TgtGetClusterMembers w))"

partial_function (option) waitConverged :: "TgtClient \<Rightarrow> world \<Rightarrow> world option" where
  \<comment> \<open>lines 524-557\<close>
  "waitConverged c w =
     (let r = pollRound c w in
      if \<not> fst r then waitConverged c (emit (Sleep 30) (snd r)) else Some (snd r))"

declare waitConverged.simps [code]

definition convergePhase :: "TgtClient \<Rightarrow> world \<Rightarrow> unit step option" where
  \<comment> \<open>lines 520-557: \<open>None\<close> when the loop never ends\<close>
  "convergePhase c w = map_option (\<lambda>w'. (Inr (), w')) (waitConverged c (emit (Sleep 30) w))"

definition retryRound :: "TgtClient \<Rightarrow> world \<Rightarrow> world" where
  \<comment> \<open>the world after a round that failed and the sleep that follows it, lines 551-554\<close>
  "retryRound c w = emit (Sleep 30) (snd (pollRound c w))"

fun isSleep :: "event \<Rightarrow> bool" where
  "isSleep (Sleep n) = True"
| "isSleep _ = False"

definition clusterHandling :: "Env \<Rightarrow> TgtClient \<Rightarrow> bool \<Rightarrow> world \<Rightarrow> unit step option" where
  \<comment> \<open>lines 503-558\<close>
  "clusterHandling env targetClient clustered w =
     (if clustered then
        (case (if \<not> flagClusterMember env then askStarted env w else Some w) of
           None \<Rightarrow> None
         | Some w1 \<Rightarrow> convergePhase targetClient w1)
      else Some (Inr (), w))"


subsection \<open>Lines 560-611: checking the target, restoring, uninstalling\<close>

definition validateTarget :: "TgtClient \<Rightarrow> world \<Rightarrow> unit step" where
  \<comment> \<open>lines 560-565\<close>
  "validateTarget targetClient w =
     (case tgtGetServer targetClient (now w) None of
        Inl err \<Rightarrow>
          fail (Errorf ''Failed to get target server info: %w'' [] (Some err))
            (emit (TgtGetServer None) w)
      | Inr info \<Rightarrow> (Inr (), emit (TgtGetServer None) w))"

fun restoreMembers :: "TgtClient \<Rightarrow> ClusterMember list \<Rightarrow> world \<Rightarrow> unit step" where
  \<comment> \<open>lines 576-588\<close>
  "restoreMembers c [] w = (Inr (), w)"
| "restoreMembers c (member # members) w =
     (case tgtRestore c (now w) (ServerName member) of
        Inl err \<Rightarrow>
          fail (Errorf ''Failed to restore %q: %w'' [ServerName member] (Some err))
            (emit (TgtRestore (ServerName member)) w)
      | Inr (Some err) \<Rightarrow>
          fail (Errorf ''Failed to restore %q: %w'' [ServerName member] (Some err))
            (emit (TgtRestore (ServerName member)) w)
      | Inr None \<Rightarrow> restoreMembers c members (emit (TgtRestore (ServerName member)) w))"

definition restorePhase :: "Env \<Rightarrow> TgtClient \<Rightarrow> bool \<Rightarrow> world \<Rightarrow> unit step" where
  \<comment> \<open>lines 567-589\<close>
  "restorePhase env targetClient clustered w =
     (if \<not> flagClusterMember env \<and> clustered then
        (case tgtGetClusterMembers targetClient (now w) of
           Inl err \<Rightarrow>
             fail (Errorf ''Failed to retrieve the list of cluster members'' [] None)
               (emit TgtGetClusterMembers w)
         | Inr clusterMembers \<Rightarrow>
             restoreMembers targetClient clusterMembers (emit TgtGetClusterMembers w))
      else (Inr (), w))"

definition uninstallPhase :: "Env \<Rightarrow> world \<Rightarrow> unit step" where
  \<comment> \<open>lines 591-601\<close>
  "uninstallPhase env w =
     (if \<not> flagYes env then askProceed env ''Uninstall the LXD package? [default=no]: '' w
      else (Inr (), w))"

definition purgePhase :: "Source \<Rightarrow> world \<Rightarrow> unit step" where
  \<comment> \<open>lines 603-608\<close>
  "purgePhase source w =
     (case srcPurge source (now w) of
        Some err \<Rightarrow>
          fail (Errorf ''Failed to uninstall the source server: %w'' [] (Some err))
            (emit SourcePurge w)
      | None \<Rightarrow> (Inr (), emit SourcePurge w))"

subsection \<open>The function \<^verbatim>\<open>Run\<close>\<close>

record plan =
  srcClient :: "SrcClient option"
  targetClient :: TgtClient
  clustered :: bool
  sourcePaths :: DaemonPaths
  targetPaths :: DaemonPaths
  planned :: rewriteAcc  \<comment> \<open>\<^verbatim>\<open>rewriteStatements\<close> and \<^verbatim>\<open>rewriteCommands\<close>\<close>

definition prepare :: "Env \<Rightarrow> Source \<Rightarrow> Target \<Rightarrow> world \<Rightarrow> plan step" where
  \<comment> \<open>lines 125-270: everything that reads the source before it is stopped\<close>
  "prepare env source target w =
     andThen (connectSource env source w) (\<lambda>(sc, cl) w1.
     andThen (connectTarget target w1) (\<lambda>tc w2.
     andThen (validatePhase env w2) (\<lambda>_ w3.
     andThen (pathsPhase source target w3) (\<lambda>(sp, tp) w4.
     andThen (gatherStorage env sc cl sp tp w4) (\<lambda>rw w5.
     andThen (gatherOVS env sc rw w5) (\<lambda>rw' w6.
       (Inr \<lparr>srcClient = sc, targetClient = tc, clustered = cl, sourcePaths = sp,
             targetPaths = tp, planned = rw'\<rparr>, w6)))))))"

definition stopAndWipe :: "Env \<Rightarrow> Source \<Rightarrow> Target \<Rightarrow> DaemonPaths \<Rightarrow> world \<Rightarrow> unit step" where
  \<comment> \<open>lines 342-377\<close>
  "stopAndWipe env source target tp w =
     andThen (stopPhase source target w) (\<lambda>_ w1.
     andThen (unmountPhase env tp w1) (\<lambda>_ w2.
       wipePhase env tp w2))"

definition migrateLocal :: "Env \<Rightarrow> Source \<Rightarrow> Target \<Rightarrow> plan \<Rightarrow> world \<Rightarrow> unit step" where
  \<comment> \<open>lines 272-501: from the confirmation to the start of the target\<close>
  "migrateLocal env source target ctx w =
     andThen (confirmPhase env (clustered ctx) w) (\<lambda>_ w1.
     andThen (evacuatePhase env (srcClient ctx) (clustered ctx) w1) (\<lambda>_ w2.
     andThen (stopAndWipe env source target (targetPaths ctx) w2) (\<lambda>_ w3.
     andThen (movePhase env (sourcePaths ctx) (targetPaths ctx) w3) (\<lambda>_ w4.
     andThen (databasePhase env (targetPaths ctx) w4) (\<lambda>_ w5.
     andThen (applyPhase env (targetPaths ctx) (planned ctx) w5) (\<lambda>_ w6.
     andThen (cleanupPhase env (sourcePaths ctx) (targetPaths ctx) w6) (\<lambda>_ w7.
       startPhase target w7)))))))"

definition finish :: "Env \<Rightarrow> Source \<Rightarrow> plan \<Rightarrow> world \<Rightarrow> unit step" where
  \<comment> \<open>lines 560-608\<close>
  "finish env source ctx w =
     andThen (validateTarget (targetClient ctx) w) (\<lambda>_ w1.
     andThen (restorePhase env (targetClient ctx) (clustered ctx) w1) (\<lambda>_ w2.
     andThen (uninstallPhase env w2) (\<lambda>_ w3.
       purgePhase source w3)))"

definition returned :: "unit step \<Rightarrow> outcome \<times> world" where
  \<comment> \<open>line 610: \<^verbatim>\<open>return nil\<close> when nothing has left the function before\<close>
  "returned r = (case r of (Inl out, w) \<Rightarrow> (out, w) | (Inr _, w) \<Rightarrow> (Returned None, w))"

definition migrate :: "Env \<Rightarrow> Source \<Rightarrow> Target \<Rightarrow> plan \<Rightarrow> world \<Rightarrow> (outcome \<times> world) option" where
  \<comment> \<open>lines 272-611; \<open>None\<close> when one of the two waiting loops never ends\<close>
  "migrate env source target ctx w =
     (case migrateLocal env source target ctx w of
        (Inl out, w1) \<Rightarrow> Some (out, w1)
      | (Inr _, w1) \<Rightarrow>
          (case clusterHandling env (targetClient ctx) (clustered ctx) w1 of
             None \<Rightarrow> None
           | Some (Inl out, w2) \<Rightarrow> Some (out, w2)
           | Some (Inr _, w2) \<Rightarrow> Some (returned (finish env source ctx w2))))"

definition runWith :: "Env \<Rightarrow> Source \<Rightarrow> Target \<Rightarrow> world \<Rightarrow> (outcome \<times> world) option" where
  \<comment> \<open>lines 125-611, with the source and the target that were found\<close>
  "runWith env source target w =
     (case prepare env source target w of
        (Inl out, w1) \<Rightarrow> Some (out, w1)
      | (Inr ctx, w1) \<Rightarrow> migrate env source target ctx w1)"

definition Run ::
  "Env \<Rightarrow> Source list \<Rightarrow> Target list \<Rightarrow> (string \<rightharpoonup> string) \<Rightarrow> (outcome \<times> world) option" where
  \<comment> \<open>\<^verbatim>\<open>cmdMigrate.Run\<close>, started with an empty log and the symbolic links \<open>ls\<close>\<close>
  "Run env srcs tgts ls =
     (case discover env srcs tgts of
        Inl out \<Rightarrow> Some (out, \<lparr>trace = [], links = ls\<rparr>)
      | Inr (source, target) \<Rightarrow> runWith env source target \<lparr>trace = [], links = ls\<rparr>)"


subsection \<open>Concrete pools, hosts and collaborators\<close>

definition cephA :: StoragePool where
  "cephA = \<lparr>Name = ''a'', Driver = ''ceph'', Config = [''ceph.osd.pool_name'' \<mapsto> ''rbd'']\<rparr>"

definition cephB :: StoragePool where
  "cephB = \<lparr>Name = ''b'', Driver = ''ceph'', Config = [''ceph.osd.pool_name'' \<mapsto> ''rbd'']\<rparr>"

definition cephBare :: StoragePool where
  "cephBare = \<lparr>Name = ''remote'', Driver = ''ceph'', Config = Map.empty\<rparr>"

definition zfsPool :: StoragePool where
  "zfsPool = \<lparr>Name = ''tank'', Driver = ''zfs'', Config = [''source'' \<mapsto> ''tank/lxd'']\<rparr>"

definition dirPool :: StoragePool where
  "dirPool = \<lparr>Name = ''a'', Driver = ''dir'', Config = [''source'' \<mapsto> ''/var/lib/old/disks/a'']\<rparr>"

definition lxdPaths :: DaemonPaths where
  "lxdPaths = \<lparr>Daemon = ''/var/lib/lxd'', Logs = ''/var/log/lxd'', Cache = ''/var/cache/lxd''\<rparr>"

definition incusPaths :: DaemonPaths where
  "incusPaths =
     \<lparr>Daemon = ''/var/lib/incus'', Logs = ''/var/log/incus'', Cache = ''/var/cache/incus''\<rparr>"

definition lxdInfo :: ServerInfo where
  "lxdInfo = \<lparr>Server = ''lxd'', ServerClustered = False, ServerConfig = Map.empty\<rparr>"

definition incusInfo :: ServerInfo where
  "incusInfo = \<lparr>Server = ''incus'', ServerClustered = True, ServerConfig = Map.empty\<rparr>"

definition node1 :: ClusterMember where
  "node1 = \<lparr>ServerName = ''node1'', Status = ''Online'', Message = ''Fully operational''\<rparr>"

definition node2 :: ClusterMember where
  "node2 =
     \<lparr>ServerName = ''node2'', Status = ''Evacuated'', Message = ''Unavailable due to maintenance''\<rparr>"

definition node3 :: ClusterMember where
  \<comment> \<open>a member whose message is not one of the two expected ones\<close>
  "node3 = \<lparr>ServerName = ''node3'', Status = ''Online'', Message = ''Fully operationnal''\<rparr>"

definition lxdClient :: SrcClient where
  "lxdClient =
     \<lparr>srcGetServer = (\<lambda>_. Inr lxdInfo),
      srcGetStoragePools = (\<lambda>_. Inr [dirPool]),
      srcGetClusterMembers = (\<lambda>_. Inr []),
      srcGetStoragePoolNames = (\<lambda>_ _. Inr []),
      srcGetStoragePool = (\<lambda>_ _ _. Inl ENOENT),
      srcEvacuate = (\<lambda>_ _. Inr None)\<rparr>"

definition incusClient :: TgtClient where
  \<comment> \<open>a cluster of two members that is healthy from the first round on\<close>
  "incusClient =
     \<lparr>tgtGetServer = (\<lambda>_ _. Inr incusInfo),
      tgtGetClusterMembers = (\<lambda>_. Inr [node1, node2]),
      tgtRestore = (\<lambda>_ _. Inr None)\<rparr>"

definition lateClient :: TgtClient where
  \<comment> \<open>the list of members cannot be fetched before the fourth call to the outside\<close>
  "lateClient =
     \<lparr>tgtGetServer = (\<lambda>_ _. Inr incusInfo),
      tgtGetClusterMembers = (\<lambda>t. if t < 3 then Inl (Failure ''not ready'') else Inr [node1, node2]),
      tgtRestore = (\<lambda>_ _. Inr None)\<rparr>"

definition typoClient :: TgtClient where
  \<comment> \<open>a cluster one of whose members never reports one of the two expected messages\<close>
  "typoClient =
     \<lparr>tgtGetServer = (\<lambda>_ _. Inr incusInfo),
      tgtGetClusterMembers = (\<lambda>_. Inr [node1, node3]),
      tgtRestore = (\<lambda>_ _. Inr None)\<rparr>"

definition lxdSource :: Source where
  "lxdSource =
     \<lparr>srcPresent = True, srcConnect = (\<lambda>_. Inr lxdClient), srcPaths = Inr lxdPaths,
      srcStop = (\<lambda>_. None), srcPurge = (\<lambda>_. None)\<rparr>"

definition incusTarget :: Target where
  "incusTarget =
     \<lparr>tgtPresent = True, tgtStop = (\<lambda>_. None), tgtStart = (\<lambda>_. None),
      tgtConnect = (\<lambda>_. Inr incusClient), tgtPaths = Inr incusPaths\<rparr>"

definition primaryEnv :: Env where
  \<comment> \<open>run as root with \<^verbatim>\<open>--yes\<close>, every call to the outside succeeds\<close>
  "primaryEnv =
     \<lparr>euid = 0, flagYes = True, flagClusterMember = False,
      getenv = (\<lambda>_. []),
      askBool = (\<lambda>_. Inr True),
      validate = (\<lambda>_. None),
      runCommand = (\<lambda>_ _. Inr []),
      ovnConvert = (\<lambda>_ _ _. Inr []),
      ovsConvert = (\<lambda>_. Inr []),
      migrateDatabase = (\<lambda>_ _. None),
      isMountPoint = (\<lambda>_. False),
      unmount = (\<lambda>_ _. None),
      mount = (\<lambda>_ _ _. None),
      removeAll = (\<lambda>_ _. None),
      mkdirAll = (\<lambda>_ _. None),
      writeFile = (\<lambda>_ _ _. None),
      removeOther = (\<lambda>_ _. None),
      readDir = (\<lambda>_ _. Inl ENOENT)\<rparr>"

definition memberEnv :: Env where
  \<comment> \<open>the same host, with \<^verbatim>\<open>--cluster-member\<close>\<close>
  "memberEnv = primaryEnv\<lparr>flagClusterMember := True\<rparr>"

definition mountedEnv :: Env where
  \<comment> \<open>the source daemon's directory is a mount point\<close>
  "mountedEnv = primaryEnv\<lparr>isMountPoint := (\<lambda>p. p = ''/var/lib/lxd'')\<rparr>"

definition busySource :: Source where
  \<comment> \<open>a source whose \<^verbatim>\<open>Stop\<close> fails\<close>
  "busySource = lxdSource\<lparr>srcStop := (\<lambda>_. Some (Failure ''unit is busy''))\<rparr>"

definition busyTarget :: Target where
  \<comment> \<open>a target whose \<^verbatim>\<open>Stop\<close> fails\<close>
  "busyTarget = incusTarget\<lparr>tgtStop := (\<lambda>_. Some (Failure ''unit is busy''))\<rparr>"

definition emptyWorld :: world where
  "emptyWorld = \<lparr>trace = [], links = Map.empty\<rparr>"

definition repairEnv :: Env where
  \<comment> \<open>the directory of the containers holds one symbolic link and one other entry\<close>
  "repairEnv =
     primaryEnv\<lparr>readDir :=
       (\<lambda>_ p. if p = ''/var/lib/incus/containers''
              then Inr [(''c1'', True), (''lost+found'', False)]
              else Inl ENOENT)\<rparr>"

definition repairedWorld :: world where
  \<comment> \<open>the link of the container points below the target directory already\<close>
  "repairedWorld =
     \<lparr>trace = [],
      links = [''/var/lib/incus/containers/c1'' \<mapsto>
                 ''/var/lib/incus/storage-pools/default/containers/c1'']\<rparr>"

section \<open>Properties\<close>

subsection \<open>Sequencing and the log\<close>

lemma andThen_Inr [simp]: "andThen (Inr x, w) f = f x w"
  by (simp add: andThen_def)

lemma andThen_Inl [simp]: "andThen (Inl out, w) f = (Inl out, w)"
  by (simp add: andThen_def)

lemma trace_emit [simp]: "trace (emit ev w) = trace w @ [ev]"
  by (simp add: emit_def)

lemma links_emit [simp]: "links (emit ev w) = links w"
  by (simp add: emit_def)

lemma now_emit [simp]: "now (emit ev w) = Suc (now w)"
  by (simp add: now_def)

subsection \<open>The configuration rewriter\<close>

lemma Index_prefix: "HasPrefix s p \<Longrightarrow> Index s p = Some 0"
  by (cases s) (auto simp: HasPrefix_def)

lemma Replace1_prefix: "HasPrefix s old \<Longrightarrow> Replace1 s old new = new @ drop (length old) s"
  by (simp add: Replace1_def Index_prefix)

lemma Replace1_absent: "Index s old = None \<Longrightarrow> Replace1 s old new = s"
  by (simp add: Replace1_def)

lemma gatherCeph_statements: "rewriteStatements (gatherCeph pool acc) = rewriteStatements acc"
  by (simp add: gatherCeph_def)

lemma gatherSource_commands:
  "rewriteCommands (gatherSource s t pool acc) = rewriteCommands acc"
  "rbdRenamed (gatherSource s t pool acc) = rbdRenamed acc"
  by (simp_all add: gatherSource_def Let_def)

lemma gatherSource_eligible:
  "eligibleSource s (poolSource pool) \<Longrightarrow>
   gatherSource s t pool acc =
     acc\<lparr>rewriteStatements := rewriteStatements acc @
        [updateStatement (t @ drop (length s) (poolSource pool)) (poolSource pool)]\<rparr>"
  by (simp add: gatherSource_def eligibleSource_def Let_def Replace1_prefix)

lemma gatherSource_not_eligible:
  "\<not> eligibleSource s (poolSource pool) \<Longrightarrow> gatherSource s t pool acc = acc"
  by (auto simp add: gatherSource_def eligibleSource_def Let_def)

lemma rename_count_gen:
  "length (filter isRbdRename (rewriteCommands (gatherPools s t pools acc))) =
   length (filter isRbdRename (rewriteCommands acc)) +
   card (Name ` set (cephPools pools) - set (rbdRenamed acc))"
proof (induction pools arbitrary: acc)
  case Nil
  then show ?case by (simp add: cephPools_def)
next
  case (Cons pool pools)
  show ?case
  proof (cases "Driver pool = ''ceph''")
    case False
    then have "gatherCeph pool acc = acc" by (simp add: gatherCeph_def)
    with False Cons show ?thesis
      by (simp add: gatherPool_def gatherSource_commands cephPools_def)
  next
    case True
    show ?thesis
    proof (cases "Name pool \<in> set (rbdRenamed acc)")
      case seen: True
      then have "gatherCeph pool acc = acc" by (simp add: gatherCeph_def ValueInSlice_def)
      moreover have "insert (Name pool) (Name ` set (cephPools pools)) - set (rbdRenamed acc)
         = Name ` set (cephPools pools) - set (rbdRenamed acc)" using seen by auto
      ultimately show ?thesis using True Cons
        by (simp add: gatherPool_def gatherSource_commands cephPools_def)
    next
      case fresh: False
      have fin: "finite (Name ` set (cephPools pools) - insert (Name pool) (set (rbdRenamed acc)))"
        by simp
      have eq: "insert (Name pool) (Name ` set (cephPools pools)) - set (rbdRenamed acc)
         = insert (Name pool)
             (Name ` set (cephPools pools) - insert (Name pool) (set (rbdRenamed acc)))"
        using fresh by auto
      have "card (insert (Name pool) (Name ` set (cephPools pools)) - set (rbdRenamed acc))
         = Suc (card (Name ` set (cephPools pools) - insert (Name pool) (set (rbdRenamed acc))))"
        unfolding eq using fin by (subst card_insert_disjoint) auto
      then show ?thesis using True fresh Cons
        by (simp add: gatherPool_def gatherSource_commands gatherCeph_def ValueInSlice_def
            cephPools_def isRbdRename_def renameCmd_def)
    qed
  qed
qed

text \<open>
  C1, as the code has it. The loop remembers the \<^verbatim>\<open>Name\<close> of each ceph pool it has
  emitted a command for, not the resolved RBD pool name: the number of
  \<^verbatim>\<open>rbd rename\<close> commands that the loop over the storage pools appends equals the number
  of distinct \<^verbatim>\<open>Name\<close>s among the pools whose driver is ceph.
\<close>

theorem rbd_rename_per_pool_name:
  "length (filter isRbdRename (rewriteCommands (gatherPools s t pools noRewrites))) =
   card (Name ` set (cephPools pools))"
  using rename_count_gen [of s t pools noRewrites] by (simp add: noRewrites_def)

theorem rbd_rename_per_pool_name_witness:
  "length (filter isRbdRename
      (rewriteCommands
         (gatherPools ''/var/lib/lxd'' ''/var/lib/incus'' [cephA, cephB, cephA] noRewrites))) = 2"
proof -
  have "Name ` set (cephPools [cephA, cephB, cephA]) = {''a'', ''b''}"
    by (auto simp: cephPools_def cephA_def cephB_def)
  then have "card (Name ` set (cephPools [cephA, cephB, cephA])) = 2"
    by simp
  then show ?thesis
    using rbd_rename_per_pool_name [of "''/var/lib/lxd''" "''/var/lib/incus''"
        "[cephA, cephB, cephA]"]
    by simp
qed

text \<open>
  C1, as stated, fails: two ceph pools with the names a and b and the same
  \<^verbatim>\<open>ceph.osd.pool_name\<close> have one resolved RBD pool name between them, and the loop
  appends two \<^verbatim>\<open>rbd rename\<close> commands.
\<close>

theorem rbd_rename_same_rbd_pool_twice:
  "length (filter isRbdRename
      (rewriteCommands
         (gatherPools ''/var/lib/lxd'' ''/var/lib/incus'' [cephA, cephB] noRewrites))) = 2
   \<and> card (resolvedRbdPools [cephA, cephB]) = 1
   \<and> Name cephA \<noteq> Name cephB \<and> rbdPool cephA = rbdPool cephB"
  by (simp add: cephA_def cephB_def noRewrites_def gatherPool_def gatherCeph_def gatherSource_def
      poolSource_def lookupOr_def ValueInSlice_def renameCmd_def isRbdRename_def cephPools_def
      rbdPool_def cephCluster_def cephClient_def resolvedRbdPools_def)

text \<open>
  C3, as the code has it. A pool whose source is empty, relative or outside the source
  daemon's directory adds no SQL statement, whatever its driver, and no command unless
  its driver is ceph. A ceph pool gets its \<^verbatim>\<open>rbd rename\<close> command before its source is
  looked at: it is appended when the pool's name has not been seen before.
\<close>

theorem ineligible_source_emits_no_statement:
  assumes "\<not> eligibleSource srcDaemon (poolSource pool)"
  shows "rewriteStatements (gatherPool srcDaemon tgtDaemon pool acc) = rewriteStatements acc
    \<and> (Driver pool \<noteq> ''ceph'' \<longrightarrow> gatherPool srcDaemon tgtDaemon pool acc = acc)
    \<and> (Driver pool = ''ceph'' \<longrightarrow>
         rewriteCommands (gatherPool srcDaemon tgtDaemon pool acc) =
           (if Name pool \<in> set (rbdRenamed acc) then rewriteCommands acc
            else rewriteCommands acc @ [renameCmd pool]))"
  using assms
  by (simp add: gatherPool_def gatherSource_not_eligible gatherCeph_def ValueInSlice_def)

theorem ineligible_source_emits_no_statement_witness:
  "\<not> eligibleSource ''/var/lib/lxd'' (poolSource zfsPool)
   \<and> gatherPool ''/var/lib/lxd'' ''/var/lib/incus'' zfsPool noRewrites = noRewrites
   \<and> \<not> eligibleSource ''/var/lib/lxd'' (poolSource cephBare)
   \<and> rewriteStatements (gatherPool ''/var/lib/lxd'' ''/var/lib/incus'' cephBare noRewrites) = []"
proof -
  have z: "\<not> eligibleSource ''/var/lib/lxd'' (poolSource zfsPool)"
    by (simp add: eligibleSource_def poolSource_def lookupOr_def zfsPool_def)
  have c: "\<not> eligibleSource ''/var/lib/lxd'' (poolSource cephBare)"
    by (simp add: eligibleSource_def poolSource_def lookupOr_def cephBare_def)
  show ?thesis
    using z c
      ineligible_source_emits_no_statement [OF z, of "''/var/lib/incus''" noRewrites]
      ineligible_source_emits_no_statement [OF c, of "''/var/lib/incus''" noRewrites]
    by (simp add: zfsPool_def noRewrites_def)
qed

text \<open>
  C3, as stated, fails for ceph: a ceph pool without a source gets a command.
\<close>

theorem ceph_without_source_emits_command:
  "poolSource cephBare = []
   \<and> rewriteCommands (gatherPool ''/var/lib/lxd'' ''/var/lib/incus'' cephBare noRewrites) =
       [[''rbd'', ''rename'', ''--cluster'', ''ceph'', ''--name'', ''admin'',
         ''remote/lxd_remote'', ''remote/incus_remote'']]"
  by (simp add: cephBare_def noRewrites_def gatherPool_def gatherCeph_def gatherSource_def
      poolSource_def lookupOr_def ValueInSlice_def renameCmd_def rbdPool_def cephCluster_def
      cephClient_def)

text \<open>
  C4. A pool whose source is an absolute path that starts with the source daemon's
  directory adds exactly one SQL statement, the \<^verbatim>\<open>UPDATE\<close> that replaces the source path by
  the same path with the source directory at its front replaced by the target directory.
\<close>

theorem eligible_source_statement:
  assumes "eligibleSource srcDaemon (poolSource pool)"
  shows "rewriteStatements (gatherPool srcDaemon tgtDaemon pool acc) =
           rewriteStatements acc @
             [updateStatement (tgtDaemon @ drop (length srcDaemon) (poolSource pool))
                (poolSource pool)]"
  using assms by (simp add: gatherPool_def gatherSource_eligible gatherCeph_statements)

theorem eligible_source_statement_witness:
  "eligibleSource ''/var/lib/old'' (poolSource dirPool)
   \<and> rewriteStatements (gatherPool ''/var/lib/old'' ''/var/lib/new'' dirPool noRewrites) =
       [''UPDATE storage_pools_config SET value='' @ [CHR 0x27] @ ''/var/lib/new/disks/a''
          @ [CHR 0x27] @ '' WHERE value='' @ [CHR 0x27] @ ''/var/lib/old/disks/a''
          @ [CHR 0x27] @ '';'']"
proof -
  have e: "eligibleSource ''/var/lib/old'' (poolSource dirPool)"
    by (simp add: eligibleSource_def poolSource_def lookupOr_def dirPool_def HasPrefix_def)
  show ?thesis
    using e eligible_source_statement [OF e, of "''/var/lib/new''" noRewrites]
    by (simp add: noRewrites_def updateStatement_def poolSource_def lookupOr_def dirPool_def)
qed


subsection \<open>Waiting for the cluster\<close>

lemma membersReady_iff:
  "fst (membersReady c members w) \<longleftrightarrow>
   (\<forall>i<length members.
      memberReady (tgtGetServer c (now w + i) (Some (ServerName (members ! i)))) (members ! i))"
proof (induction members arbitrary: w)
  case Nil
  then show ?case by simp
next
  case (Cons member members)
  show ?case
  proof (cases "memberReady (tgtGetServer c (now w) (Some (ServerName member))) member")
    case True
    then show ?thesis
      using Cons.IH [of "emit (TgtGetServer (Some (ServerName member))) w"]
      by (auto simp: less_Suc_eq_0_disj)
  next
    case False
    then show ?thesis by auto
  qed
qed

lemma waitConverged_pass: "fst (pollRound c w) \<Longrightarrow> waitConverged c w = Some (snd (pollRound c w))"
  by (subst waitConverged.simps) (simp add: Let_def)

lemma waitConverged_retry:
  "\<not> fst (pollRound c w) \<Longrightarrow> waitConverged c w = waitConverged c (retryRound c w)"
  by (subst waitConverged.simps) (simp add: Let_def retryRound_def)

lemma waitConverged_first_pass:
  "fst (pollRound c ((retryRound c ^^ k) w)) \<Longrightarrow>
   (\<forall>j<k. \<not> fst (pollRound c ((retryRound c ^^ j) w))) \<Longrightarrow>
   waitConverged c w = Some (snd (pollRound c ((retryRound c ^^ k) w)))"
proof (induction k arbitrary: w)
  case 0
  then show ?case by (simp add: waitConverged_pass)
next
  case (Suc k)
  from Suc.prems(2) have "\<not> fst (pollRound c ((retryRound c ^^ 0) w))" by blast
  then have r: "waitConverged c w = waitConverged c (retryRound c w)"
    by (simp add: waitConverged_retry)
  have p: "fst (pollRound c ((retryRound c ^^ k) (retryRound c w)))"
    using Suc.prems(1) by (simp add: funpow_swap1)
  have q: "\<forall>j<k. \<not> fst (pollRound c ((retryRound c ^^ j) (retryRound c w)))"
  proof (intro allI impI)
    fix j assume "j < k"
    then have "Suc j < Suc k" by simp
    with Suc.prems(2) have "\<not> fst (pollRound c ((retryRound c ^^ Suc j) w))" by blast
    then show "\<not> fst (pollRound c ((retryRound c ^^ j) (retryRound c w)))"
      by (simp add: funpow_swap1)
  qed
  show ?case using Suc.IH [OF p q] r by (simp add: funpow_swap1)
qed

lemma waitConverged_Some_passes:
  "waitConverged c w = Some w' \<Longrightarrow> \<exists>k. fst (pollRound c ((retryRound c ^^ k) w))"
proof (induction c w w' rule: waitConverged.raw_induct [rotated 1, consumes 1])
  case (1 wc c w w')
  show ?case
  proof (cases "fst (pollRound c w)")
    case True
    then have "fst (pollRound c ((retryRound c ^^ 0) w))" by simp
    then show ?thesis by blast
  next
    case False
    with 1(2) have "wc c (retryRound c w) = Some w'"
      by (simp add: Let_def retryRound_def)
    from 1(1) [OF this] obtain k where "fst (pollRound c ((retryRound c ^^ k) (retryRound c w)))"
      by blast
    then have "fst (pollRound c ((retryRound c ^^ Suc k) w))" by (simp add: funpow_swap1)
    then show ?thesis by blast
  qed
qed

lemma waitConverged_never:
  "(\<forall>k. \<not> fst (pollRound c ((retryRound c ^^ k) w))) \<Longrightarrow> waitConverged c w = None"
  using waitConverged_Some_passes [of c w] by (cases "waitConverged c w") auto

lemma membersReady_sleeps:
  "filter isSleep (trace (snd (membersReady c members w))) = filter isSleep (trace w)"
  by (induction members arbitrary: w) auto

lemma pollRound_sleeps: "filter isSleep (trace (snd (pollRound c w))) = filter isSleep (trace w)"
  by (auto simp: pollRound_def membersReady_sleeps split: sum.splits)

lemma retryRound_sleeps:
  "filter isSleep (trace ((retryRound c ^^ k) w)) = filter isSleep (trace w) @ replicate k (Sleep 30)"
proof (induction k)
  case 0
  then show ?case by simp
next
  case (Suc k)
  then show ?case
    by (simp add: retryRound_def pollRound_sleeps replicate_append_same)
qed

text \<open>
  C5. A member passes the check of the waiting loop exactly when its server information
  can be fetched and names the server incus, and its status and message are one of the
  two expected pairs. A round passes exactly when the list of members can be fetched and
  every member passes; after a round that does not pass, the loop sleeps and starts
  another round, and after a round that passes it ends.
\<close>

theorem member_health_check:
  "(memberReady answer member \<longleftrightarrow>
      (\<exists>info. answer = Inr info \<and> Server info = ''incus'') \<and>
      ((Status member, Message member) = (''Evacuated'', ''Unavailable due to maintenance'') \<or>
       (Status member, Message member) = (''Online'', ''Fully operational'')))
   \<and> (tgtGetClusterMembers c (now w) = Inr members \<longrightarrow>
        (fst (pollRound c w) \<longleftrightarrow>
           (\<forall>i<length members.
              memberReady (tgtGetServer c (Suc (now w) + i) (Some (ServerName (members ! i))))
                (members ! i))))
   \<and> (\<not> fst (pollRound c w) \<longrightarrow>
        waitConverged c w = waitConverged c (emit (Sleep 30) (snd (pollRound c w))))
   \<and> (fst (pollRound c w) \<longrightarrow> waitConverged c w = Some (snd (pollRound c w)))"
proof (intro conjI impI)
  show "memberReady answer member \<longleftrightarrow>
      (\<exists>info. answer = Inr info \<and> Server info = ''incus'') \<and>
      ((Status member, Message member) = (''Evacuated'', ''Unavailable due to maintenance'') \<or>
       (Status member, Message member) = (''Online'', ''Fully operational''))"
    by (cases answer) (auto simp: memberReady_def)
next
  assume "tgtGetClusterMembers c (now w) = Inr members"
  then show "fst (pollRound c w) \<longleftrightarrow>
           (\<forall>i<length members.
              memberReady (tgtGetServer c (Suc (now w) + i) (Some (ServerName (members ! i))))
                (members ! i))"
    by (simp add: pollRound_def membersReady_iff)
next
  assume "\<not> fst (pollRound c w)"
  then show "waitConverged c w = waitConverged c (emit (Sleep 30) (snd (pollRound c w)))"
    by (simp add: waitConverged_retry retryRound_def)
next
  assume "fst (pollRound c w)"
  then show "waitConverged c w = Some (snd (pollRound c w))"
    by (rule waitConverged_pass)
qed

theorem member_health_check_witness:
  "\<not> memberReady (Inr incusInfo) node3
   \<and> tgtGetClusterMembers typoClient (now emptyWorld) = Inr [node1, node3]
   \<and> \<not> fst (pollRound typoClient emptyWorld)
   \<and> waitConverged typoClient emptyWorld =
       waitConverged typoClient
         \<lparr>trace = [TgtGetClusterMembers, TgtGetServer (Some ''node1''),
                   TgtGetServer (Some ''node3''), Sleep 30], links = Map.empty\<rparr>"
  using member_health_check [of "Inr incusInfo" node3 typoClient emptyWorld "[node1, node3]"]
  by (simp add: pollRound_def typoClient_def node1_def node3_def incusInfo_def memberReady_def
      now_def emit_def emptyWorld_def)

text \<open>
  C6. The waiting step sleeps 30 once and then polls. It has no error to return. When
  the list of members cannot be fetched the round does not pass. When no round ever
  passes the step never ends, whatever the number of rounds. When round \<open>k\<close> is the first
  that passes, the step ends with that round, after the first sleep and one more sleep of
  30 for each of the \<open>k\<close> rounds before it. The step ends only when a round passes.
\<close>

theorem converge_retries_without_bound:
  "(\<forall>out w'. convergePhase c w \<noteq> Some (Inl out, w'))
   \<and> (\<forall>w1 err. tgtGetClusterMembers c (now w1) = Inl err \<longrightarrow> \<not> fst (pollRound c w1))
   \<and> ((\<forall>k. \<not> fst (pollRound c ((retryRound c ^^ k) (emit (Sleep 30) w)))) \<longrightarrow>
        convergePhase c w = None)
   \<and> (fst (pollRound c ((retryRound c ^^ k) (emit (Sleep 30) w)))
        \<and> (\<forall>j<k. \<not> fst (pollRound c ((retryRound c ^^ j) (emit (Sleep 30) w)))) \<longrightarrow>
        convergePhase c w =
          Some (Inr (), snd (pollRound c ((retryRound c ^^ k) (emit (Sleep 30) w))))
        \<and> filter isSleep (trace (snd (pollRound c ((retryRound c ^^ k) (emit (Sleep 30) w))))) =
            filter isSleep (trace w) @ replicate (Suc k) (Sleep 30))
   \<and> (\<forall>r. convergePhase c w = Some r \<longrightarrow>
        (\<exists>k. fst (pollRound c ((retryRound c ^^ k) (emit (Sleep 30) w)))))"
proof (intro conjI allI impI)
  fix out w'
  show "convergePhase c w \<noteq> Some (Inl out, w')"
    by (auto simp: convergePhase_def)
next
  fix w1 err
  assume "tgtGetClusterMembers c (now w1) = Inl err"
  then show "\<not> fst (pollRound c w1)" by (simp add: pollRound_def)
next
  assume "\<forall>k. \<not> fst (pollRound c ((retryRound c ^^ k) (emit (Sleep 30) w)))"
  then show "convergePhase c w = None"
    by (simp add: convergePhase_def waitConverged_never)
next
  assume a: "fst (pollRound c ((retryRound c ^^ k) (emit (Sleep 30) w)))
        \<and> (\<forall>j<k. \<not> fst (pollRound c ((retryRound c ^^ j) (emit (Sleep 30) w))))"
  then show "convergePhase c w =
          Some (Inr (), snd (pollRound c ((retryRound c ^^ k) (emit (Sleep 30) w))))"
    by (simp add: convergePhase_def waitConverged_first_pass)
  show "filter isSleep (trace (snd (pollRound c ((retryRound c ^^ k) (emit (Sleep 30) w))))) =
            filter isSleep (trace w) @ replicate (Suc k) (Sleep 30)"
    by (simp add: pollRound_sleeps retryRound_sleeps replicate_append_same)
next
  fix r
  assume "convergePhase c w = Some r"
  then obtain w' where "waitConverged c (emit (Sleep 30) w) = Some w'"
    by (auto simp: convergePhase_def)
  then show "\<exists>k. fst (pollRound c ((retryRound c ^^ k) (emit (Sleep 30) w)))"
    by (rule waitConverged_Some_passes)
qed

theorem converge_retries_without_bound_witness:
  "convergePhase lateClient emptyWorld =
     Some (Inr (),
       \<lparr>trace = [Sleep 30, TgtGetClusterMembers, Sleep 30, TgtGetClusterMembers,
                 TgtGetServer (Some ''node1''), TgtGetServer (Some ''node2'')],
        links = Map.empty\<rparr>)
   \<and> convergePhase typoClient emptyWorld = None"
proof -
  have first: "\<not> fst (pollRound lateClient (emit (Sleep 30) emptyWorld))"
    by (simp add: pollRound_def lateClient_def now_def emit_def emptyWorld_def)
  have second:
    "pollRound lateClient (retryRound lateClient (emit (Sleep 30) emptyWorld)) =
       (True, \<lparr>trace = [Sleep 30, TgtGetClusterMembers, Sleep 30, TgtGetClusterMembers,
                 TgtGetServer (Some ''node1''), TgtGetServer (Some ''node2'')],
        links = Map.empty\<rparr>)"
    by (simp add: retryRound_def pollRound_def lateClient_def now_def emit_def emptyWorld_def
        memberReady_def node1_def node2_def incusInfo_def)
  have never: "\<forall>k. \<not> fst (pollRound typoClient ((retryRound typoClient ^^ k) (emit (Sleep 30) emptyWorld)))"
    by (simp add: pollRound_def typoClient_def memberReady_def node1_def node3_def incusInfo_def)
  show ?thesis
    using first second never
      converge_retries_without_bound [of lateClient emptyWorld "Suc 0"]
      converge_retries_without_bound [of typoClient emptyWorld]
    by simp
qed


subsection \<open>Stopping the daemons and moving the data\<close>

lemma stopPhase_always: "stopPhase source target w = (Inr (), emit TargetStop (emit SourceStop w))"
  by (simp add: stopPhase_def discard_def Let_def split: option.splits)

lemma trace_osUnmount: "trace (snd (osUnmount env p w)) = trace w @ [Unmount p]"
  by (simp add: osUnmount_def split: option.splits)

lemma trace_osRemoveAll: "trace (snd (osRemoveAll env p w)) = trace w @ [RemoveAll p]"
  by (simp add: osRemoveAll_def split: option.splits)

lemma trace_wipeOne: "trace (snd (wipeOne env p w)) = trace w @ [RemoveAll p]"
  using trace_osRemoveAll [of env p w]
  by (cases "osRemoveAll env p w") (auto simp: wipeOne_def fail_def split: option.splits)

lemma trace_andThen:
  assumes "\<exists>es. trace (snd r) = tr @ es"
    and "\<And>x w. \<exists>es. trace (snd (f x w)) = trace w @ es"
  shows "\<exists>es. trace (snd (andThen r f)) = tr @ es"
proof (cases r)
  case (Pair a w)
  show ?thesis
  proof (cases a)
    case (Inl out)
    with Pair assms(1) show ?thesis by simp
  next
    case (Inr x)
    from assms(1) Pair obtain es where "trace w = tr @ es" by auto
    moreover from assms(2) obtain es' where "trace (snd (f x w)) = trace w @ es'" by blast
    ultimately show ?thesis using Pair Inr by simp
  qed
qed

lemma trace_wipePhase:
  "\<exists>es. trace (snd (wipePhase env tp w)) = trace w @ RemoveAll (Logs tp) # es"
proof -
  have "\<exists>es. trace (snd (wipePhase env tp w)) = (trace w @ [RemoveAll (Logs tp)]) @ es"
    unfolding wipePhase_def
  proof (rule trace_andThen)
    show "\<exists>es. trace (snd (wipeOne env (Logs tp) w)) = (trace w @ [RemoveAll (Logs tp)]) @ es"
      by (simp add: trace_wipeOne)
  next
    fix x w1
    show "\<exists>es. trace (snd (andThen (wipeOne env (Cache tp) w1) (\<lambda>_. wipeOne env (Daemon tp))))
            = trace w1 @ es"
    proof (rule trace_andThen)
      show "\<exists>es. trace (snd (wipeOne env (Cache tp) w1)) = trace w1 @ es"
        by (simp add: trace_wipeOne)
    next
      fix y w2
      show "\<exists>es. trace (snd (wipeOne env (Daemon tp) w2)) = trace w2 @ es"
        by (simp add: trace_wipeOne)
    qed
  qed
  then show ?thesis by simp
qed

lemma connectSource_stop:
  "connectSource env (source\<lparr>srcStop := f\<rparr>) w = connectSource env source w"
  by (simp add: connectSource_def)

lemma connectTarget_stop: "connectTarget (target\<lparr>tgtStop := g\<rparr>) w = connectTarget target w"
  by (simp add: connectTarget_def)

lemma pathsPhase_stop:
  "pathsPhase (source\<lparr>srcStop := f\<rparr>) (target\<lparr>tgtStop := g\<rparr>) w = pathsPhase source target w"
  by (simp add: pathsPhase_def cong: sum.case_cong)

lemma startPhase_stop: "startPhase (target\<lparr>tgtStop := g\<rparr>) w = startPhase target w"
  by (simp add: startPhase_def)

lemma purgePhase_stop: "purgePhase (source\<lparr>srcStop := f\<rparr>) w = purgePhase source w"
  by (simp add: purgePhase_def)

lemma prepare_stop:
  "prepare env (source\<lparr>srcStop := f\<rparr>) (target\<lparr>tgtStop := g\<rparr>) w = prepare env source target w"
  by (simp add: prepare_def connectSource_stop connectTarget_stop pathsPhase_stop)

lemma migrateLocal_stop:
  "migrateLocal env (source\<lparr>srcStop := f\<rparr>) (target\<lparr>tgtStop := g\<rparr>) ctx w =
   migrateLocal env source target ctx w"
  by (simp add: migrateLocal_def stopAndWipe_def stopPhase_always startPhase_stop)

lemma finish_stop: "finish env (source\<lparr>srcStop := f\<rparr>) ctx w = finish env source ctx w"
  by (simp add: finish_def purgePhase_stop)

lemma migrate_stop:
  "migrate env (source\<lparr>srcStop := f\<rparr>) (target\<lparr>tgtStop := g\<rparr>) ctx w =
   migrate env source target ctx w"
  by (simp add: migrate_def migrateLocal_stop finish_stop
      cong: prod.case_cong sum.case_cong option.case_cong)

text \<open>
  C7. Whatever \<^verbatim>\<open>source.Stop()\<close> and \<^verbatim>\<open>target.Stop()\<close> return, the stop phase goes on: the
  error it formats is dropped. What \<^verbatim>\<open>Run\<close> returns and does, from the connection on, is
  the same for any two answers of the stop calls, and after the two stop calls come the
  two unmounts and the removal of the target's log directory.
\<close>

theorem stop_errors_are_dropped:
  "stopPhase source target w = (Inr (), emit TargetStop (emit SourceStop w))
   \<and> runWith env (source\<lparr>srcStop := f\<rparr>) (target\<lparr>tgtStop := g\<rparr>) w = runWith env source target w
   \<and> (\<exists>rest. trace (snd (stopAndWipe env source target tp w)) =
         trace w @ [SourceStop, TargetStop, Unmount (Join [Daemon tp, ''guestapi'']),
                    Unmount (Join [Daemon tp, ''shmounts'']), RemoveAll (Logs tp)] @ rest)"
proof (intro conjI)
  show "stopPhase source target w = (Inr (), emit TargetStop (emit SourceStop w))"
    by (rule stopPhase_always)
  show "runWith env (source\<lparr>srcStop := f\<rparr>) (target\<lparr>tgtStop := g\<rparr>) w = runWith env source target w"
    by (simp add: runWith_def prepare_stop migrate_stop cong: prod.case_cong sum.case_cong)
  show "\<exists>rest. trace (snd (stopAndWipe env source target tp w)) =
         trace w @ [SourceStop, TargetStop, Unmount (Join [Daemon tp, ''guestapi'']),
                    Unmount (Join [Daemon tp, ''shmounts'']), RemoveAll (Logs tp)] @ rest"
    using trace_wipePhase [of env tp
        "unmountAll env (Daemon tp) [''guestapi'', ''shmounts''] (emit TargetStop (emit SourceStop w))"]
    by (simp add: stopAndWipe_def stopPhase_always unmountPhase_def trace_osUnmount)
qed

theorem stop_errors_are_dropped_witness:
  "srcStop busySource 0 = Some (Failure ''unit is busy'')
   \<and> tgtStop busyTarget 1 = Some (Failure ''unit is busy'')
   \<and> stopPhase busySource busyTarget emptyWorld =
       (Inr (), \<lparr>trace = [SourceStop, TargetStop], links = Map.empty\<rparr>)
   \<and> runWith primaryEnv busySource busyTarget emptyWorld =
       runWith primaryEnv lxdSource incusTarget emptyWorld"
  using stop_errors_are_dropped [where source = busySource and target = busyTarget
      and w = emptyWorld]
    stop_errors_are_dropped [where env = primaryEnv and source = lxdSource and target = incusTarget
      and f = "\<lambda>_. Some (Failure ''unit is busy'')"
      and g = "\<lambda>_. Some (Failure ''unit is busy'')" and w = emptyWorld]
  by (simp add: busySource_def busyTarget_def emptyWorld_def emit_def)

text \<open>
  C8. When the source daemon's directory is a mount point, lines 392-418 create the
  target directory, bind-mount the source directory on it and detach the source mount,
  in this order, each step only when the one before it succeeded; they go on past the
  phase only after all three, and they never run \<^verbatim>\<open>mv\<close> on the directory. When it is not
  a mount point they run \<^verbatim>\<open>mv\<close> and nothing else.
\<close>

theorem daemon_directory_moved_by_bind_mount:
  "(isMountPoint env (Daemon sp) \<longrightarrow>
      (let r = moveDaemon env sp tp w;
           new = drop (length (trace w)) (trace (snd r));
           steps = [MkdirAll (Daemon tp), BindMount (Daemon sp) (Daemon tp), Unmount (Daemon sp)]
       in take (length (trace w)) (trace (snd r)) = trace w
          \<and> (new = take 1 steps \<or> new = take 2 steps \<or> new = steps)
          \<and> (fst r = Inr () \<longrightarrow> new = steps)
          \<and> (mkdirAll env (now w) (Daemon tp) = None
               \<and> mount env (Suc (now w)) (Daemon sp) (Daemon tp) = None
               \<and> unmount env (Suc (Suc (now w))) (Daemon sp) = None \<longrightarrow>
              fst r = Inr () \<and> new = steps)
          \<and> RunCommand [''mv'', Daemon sp, Daemon tp] \<notin> set new))
   \<and> (\<not> isMountPoint env (Daemon sp) \<longrightarrow>
        trace (snd (moveDaemon env sp tp w)) =
          trace w @ [RunCommand [''mv'', Daemon sp, Daemon tp]])"
  by (auto simp: moveDaemon_def moveOne_def subprocessRun_def osUnmount_def fail_def Let_def
      now_def emit_def split: option.splits sum.splits)

theorem daemon_directory_moved_by_bind_mount_witness:
  "isMountPoint mountedEnv (Daemon lxdPaths)
   \<and> fst (moveDaemon mountedEnv lxdPaths incusPaths emptyWorld) = Inr ()
   \<and> trace (snd (moveDaemon mountedEnv lxdPaths incusPaths emptyWorld)) =
       [MkdirAll ''/var/lib/incus'', BindMount ''/var/lib/lxd'' ''/var/lib/incus'',
        Unmount ''/var/lib/lxd'']
   \<and> \<not> isMountPoint primaryEnv (Daemon lxdPaths)
   \<and> trace (snd (moveDaemon primaryEnv lxdPaths incusPaths emptyWorld)) =
       [RunCommand [''mv'', ''/var/lib/lxd'', ''/var/lib/incus'']]"
  using daemon_directory_moved_by_bind_mount [of mountedEnv lxdPaths incusPaths emptyWorld]
    daemon_directory_moved_by_bind_mount [of primaryEnv lxdPaths incusPaths emptyWorld]
  by (simp add: mountedEnv_def primaryEnv_def lxdPaths_def incusPaths_def emptyWorld_def
      now_def Let_def)


subsection \<open>The symlink repair\<close>

lemma repairEntry_idem:
  assumes "links w (Join [tgtDaemon, dir, name]) = Some t" and "Index t srcDaemon = None"
  shows "repairEntry env srcDaemon tgtDaemon dir (name, True) w =
     (Inr (), w\<lparr>trace := trace w @ [Readlink (Join [tgtDaemon, dir, name]),
        Remove (Join [tgtDaemon, dir, name]), Symlink t (Join [tgtDaemon, dir, name])]\<rparr>)"
proof -
  have "(links w)(Join [tgtDaemon, dir, name] \<mapsto> t) = links w"
    using assms(1) by (rule map_upd_triv)
  then show ?thesis
    using assms
    by (simp add: repairEntry_def osReadlink_def osRemove_def osSymlink_def Replace1_absent
        emit_def Let_def)
qed

lemma repairEntry_skip: "repairEntry env srcDaemon tgtDaemon dir (name, False) w = (Inr (), w)"
  by (simp add: repairEntry_def Let_def)

lemma repairEntries_idem:
  assumes "\<forall>name. (name, True) \<in> set entries \<longrightarrow>
             (\<exists>t. links w (Join [tgtDaemon, dir, name]) = Some t \<and> Index t srcDaemon = None)"
  shows "fst (repairEntries env srcDaemon tgtDaemon dir entries w) = Inr ()
    \<and> links (snd (repairEntries env srcDaemon tgtDaemon dir entries w)) = links w"
  using assms
proof (induction entries arbitrary: w)
  case Nil
  then show ?case by simp
next
  case (Cons entry entries)
  obtain name isLink where e: "entry = (name, isLink)" by (cases entry)
  show ?case
  proof (cases isLink)
    case False
    with e Cons show ?thesis by (simp add: repairEntry_skip)
  next
    case True
    with e Cons.prems obtain t where t: "links w (Join [tgtDaemon, dir, name]) = Some t"
      "Index t srcDaemon = None" by auto
    let ?w' = "w\<lparr>trace := trace w @ [Readlink (Join [tgtDaemon, dir, name]),
        Remove (Join [tgtDaemon, dir, name]), Symlink t (Join [tgtDaemon, dir, name])]\<rparr>"
    have "\<forall>name. (name, True) \<in> set entries \<longrightarrow>
             (\<exists>t. links ?w' (Join [tgtDaemon, dir, name]) = Some t \<and> Index t srcDaemon = None)"
      using Cons.prems by simp
    from Cons.IH [OF this] show ?thesis
      using e True by (simp add: repairEntry_idem [OF t])
  qed
qed

lemma repairDirs_idem:
  assumes "\<forall>n dir err. dir \<in> set dirs \<longrightarrow> readDir env n (Join [tgtDaemon, dir]) = Inl err \<longrightarrow>
             IsNotExist err"
    and "\<forall>n dir entries name. dir \<in> set dirs \<longrightarrow>
           readDir env n (Join [tgtDaemon, dir]) = Inr entries \<longrightarrow> (name, True) \<in> set entries \<longrightarrow>
           (\<exists>t. links w (Join [tgtDaemon, dir, name]) = Some t \<and> Index t srcDaemon = None)"
  shows "fst (repairDirs env srcDaemon tgtDaemon dirs w) = Inr ()
    \<and> links (snd (repairDirs env srcDaemon tgtDaemon dirs w)) = links w"
  using assms
proof (induction dirs arbitrary: w)
  case Nil
  then show ?case by simp
next
  case (Cons dir dirs)
  let ?w1 = "emit (ReadDir (Join [tgtDaemon, dir])) w"
  have err: "\<forall>n d err. d \<in> set dirs \<longrightarrow> readDir env n (Join [tgtDaemon, d]) = Inl err \<longrightarrow>
             IsNotExist err"
    using Cons.prems(1) by simp
  show ?case
  proof (cases "readDir env (now w) (Join [tgtDaemon, dir])")
    case (Inl e)
    with Cons.prems(1) have ne: "IsNotExist e" by auto
    have "\<forall>n d entries name. d \<in> set dirs \<longrightarrow>
           readDir env n (Join [tgtDaemon, d]) = Inr entries \<longrightarrow> (name, True) \<in> set entries \<longrightarrow>
           (\<exists>t. links ?w1 (Join [tgtDaemon, d, name]) = Some t \<and> Index t srcDaemon = None)"
      using Cons.prems(2) by simp
    from Cons.IH [OF err this] show ?thesis using Inl ne by simp
  next
    case (Inr entries)
    have "\<forall>name. (name, True) \<in> set entries \<longrightarrow>
             (\<exists>t. links ?w1 (Join [tgtDaemon, dir, name]) = Some t \<and> Index t srcDaemon = None)"
      using Cons.prems(2) Inr by auto
    from repairEntries_idem [OF this, of env]
    obtain w2 where r: "repairEntries env srcDaemon tgtDaemon dir entries ?w1 = (Inr (), w2)"
      and l: "links w2 = links w"
      by (cases "repairEntries env srcDaemon tgtDaemon dir entries ?w1") auto
    have "\<forall>n d entries name. d \<in> set dirs \<longrightarrow>
           readDir env n (Join [tgtDaemon, d]) = Inr entries \<longrightarrow> (name, True) \<in> set entries \<longrightarrow>
           (\<exists>t. links w2 (Join [tgtDaemon, d, name]) = Some t \<and> Index t srcDaemon = None)"
      using Cons.prems(2) l by simp
    from Cons.IH [OF err this] show ?thesis using Inr r l by simp
  qed
qed

text \<open>
  C9. When the target of a symbolic link contains no occurrence of the source daemon's
  directory, the body of the repair loop reads the link, deletes it and creates it again
  with the same target, and goes on without an error: the links are what they were. When
  this holds for every symbolic link that the five directories list, and the
  directories can be read or do not exist, the whole repair step returns no error and
  leaves every link as it was.
\<close>

theorem symlink_repair_idempotent:
  "(links w (Join [tgtDaemon, dir, name]) = Some t \<and> Index t srcDaemon = None \<longrightarrow>
      repairEntry env srcDaemon tgtDaemon dir (name, True) w =
        (Inr (), w\<lparr>trace := trace w @ [Readlink (Join [tgtDaemon, dir, name]),
           Remove (Join [tgtDaemon, dir, name]), Symlink t (Join [tgtDaemon, dir, name])]\<rparr>))
   \<and> ((\<forall>n d err. d \<in> set instanceDirs \<longrightarrow> readDir env n (Join [Daemon tp, d]) = Inl err \<longrightarrow>
          IsNotExist err)
       \<and> (\<forall>n d entries nm. d \<in> set instanceDirs \<longrightarrow>
            readDir env n (Join [Daemon tp, d]) = Inr entries \<longrightarrow> (nm, True) \<in> set entries \<longrightarrow>
            (\<exists>t'. links w (Join [Daemon tp, d, nm]) = Some t' \<and> Index t' (Daemon sp) = None))
       \<longrightarrow> fst (symlinkRepair env sp tp w) = Inr ()
           \<and> links (snd (symlinkRepair env sp tp w)) = links w)"
proof (intro conjI impI)
  assume "links w (Join [tgtDaemon, dir, name]) = Some t \<and> Index t srcDaemon = None"
  then show "repairEntry env srcDaemon tgtDaemon dir (name, True) w =
        (Inr (), w\<lparr>trace := trace w @ [Readlink (Join [tgtDaemon, dir, name]),
           Remove (Join [tgtDaemon, dir, name]), Symlink t (Join [tgtDaemon, dir, name])]\<rparr>)"
    by (simp add: repairEntry_idem)
next
  assume a: "(\<forall>n d err. d \<in> set instanceDirs \<longrightarrow> readDir env n (Join [Daemon tp, d]) = Inl err \<longrightarrow>
          IsNotExist err)
       \<and> (\<forall>n d entries nm. d \<in> set instanceDirs \<longrightarrow>
            readDir env n (Join [Daemon tp, d]) = Inr entries \<longrightarrow> (nm, True) \<in> set entries \<longrightarrow>
            (\<exists>t'. links w (Join [Daemon tp, d, nm]) = Some t' \<and> Index t' (Daemon sp) = None))"
  from a have 1: "\<forall>n d err. d \<in> set instanceDirs \<longrightarrow>
      readDir env n (Join [Daemon tp, d]) = Inl err \<longrightarrow> IsNotExist err"
    by blast
  from a have 2: "\<forall>n d entries nm. d \<in> set instanceDirs \<longrightarrow>
      readDir env n (Join [Daemon tp, d]) = Inr entries \<longrightarrow> (nm, True) \<in> set entries \<longrightarrow>
      (\<exists>t'. links w (Join [Daemon tp, d, nm]) = Some t' \<and> Index t' (Daemon sp) = None)"
    by blast
  from repairDirs_idem [OF 1 2]
  show "fst (symlinkRepair env sp tp w) = Inr ()"
    "links (snd (symlinkRepair env sp tp w)) = links w"
    by (simp_all add: symlinkRepair_def)
qed

theorem symlink_repair_idempotent_witness:
  "links repairedWorld ''/var/lib/incus/containers/c1'' =
     Some ''/var/lib/incus/storage-pools/default/containers/c1''
   \<and> Index ''/var/lib/incus/storage-pools/default/containers/c1'' ''/var/lib/lxd'' = None
   \<and> repairEntry repairEnv ''/var/lib/lxd'' ''/var/lib/incus'' ''containers'' (''c1'', True)
       repairedWorld =
       (Inr (), repairedWorld\<lparr>trace := [Readlink ''/var/lib/incus/containers/c1'',
          Remove ''/var/lib/incus/containers/c1'',
          Symlink ''/var/lib/incus/storage-pools/default/containers/c1''
            ''/var/lib/incus/containers/c1'']\<rparr>)
   \<and> fst (symlinkRepair repairEnv lxdPaths incusPaths repairedWorld) = Inr ()
   \<and> links (snd (symlinkRepair repairEnv lxdPaths incusPaths repairedWorld)) = links repairedWorld"
proof -
  have l: "links repairedWorld (Join [''/var/lib/incus'', ''containers'', ''c1'']) =
     Some ''/var/lib/incus/storage-pools/default/containers/c1''"
    by (simp add: repairedWorld_def Join_def)
  have i: "Index ''/var/lib/incus/storage-pools/default/containers/c1'' ''/var/lib/lxd'' = None"
    by (simp add: HasPrefix_def)
  have e: "\<forall>n d err. d \<in> set instanceDirs \<longrightarrow>
      readDir repairEnv n (Join [Daemon incusPaths, d]) = Inl err \<longrightarrow> IsNotExist err"
    by (simp add: repairEnv_def IsNotExist_def)
  have s: "\<forall>n d entries nm. d \<in> set instanceDirs \<longrightarrow>
      readDir repairEnv n (Join [Daemon incusPaths, d]) = Inr entries \<longrightarrow>
      (nm, True) \<in> set entries \<longrightarrow>
      (\<exists>t'. links repairedWorld (Join [Daemon incusPaths, d, nm]) = Some t'
          \<and> Index t' (Daemon lxdPaths) = None)"
    using i by (auto simp: repairEnv_def instanceDirs_def incusPaths_def lxdPaths_def Join_def
        repairedWorld_def split: if_splits)
  show ?thesis
    using l i e s
      symlink_repair_idempotent [where w = repairedWorld and tgtDaemon = "''/var/lib/incus''"
        and dir = "''containers''" and name = "''c1''"
        and t = "''/var/lib/incus/storage-pools/default/containers/c1''"
        and srcDaemon = "''/var/lib/lxd''" and env = repairEnv and tp = incusPaths and sp = lxdPaths]
    by (simp add: Join_def repairedWorld_def)
qed

subsection \<open>A run with \<^verbatim>\<open>--cluster-member\<close>\<close>

text \<open>
  C10. With \<^verbatim>\<open>--cluster-member\<close> the source is never connected: \<^verbatim>\<open>srcClient\<close> keeps the
  nil value it is declared with. Line 241 calls \<^verbatim>\<open>GetServer\<close> on it under no condition.
  So a run with the flag ends in one of two ways: with the error of a step before line
  241 (not root, no source, no target, the target connection, the paths), or, when all of
  these succeed, with the call on the nil client; the only call to the outside it has
  made by then is the connection to the target, before any stop.
\<close>

theorem cluster_member_calls_nil_source_client:
  assumes "flagClusterMember env"
  shows "connectSource env source w = (Inr (None, True), w)
    \<and> gatherOVS env None rw w = (Inl Panicked, w)
    \<and> Run env srcs tgts ls =
        Some (case discover env srcs tgts of
                Inl out \<Rightarrow> (out, \<lparr>trace = [], links = ls\<rparr>)
              | Inr (source, target) \<Rightarrow>
                  (case tgtConnect target 0 of
                     Inl err \<Rightarrow>
                       (Returned (Some
                          (Errorf ''Failed to connect to the target: %w'' [] (Some err))),
                        \<lparr>trace = [TargetConnect], links = ls\<rparr>)
                   | Inr tc \<Rightarrow>
                       (case srcPaths source of
                          Inl err \<Rightarrow>
                            (Returned (Some
                               (Errorf ''Failed to get source paths: %w'' [] (Some err))),
                             \<lparr>trace = [TargetConnect], links = ls\<rparr>)
                        | Inr sp \<Rightarrow>
                            (case tgtPaths target of
                               Inl err \<Rightarrow>
                                 (Returned (Some
                                    (Errorf ''Failed to get target paths: %w'' [] (Some err))),
                                  \<lparr>trace = [TargetConnect], links = ls\<rparr>)
                             | Inr tp \<Rightarrow>
                                 (Panicked, \<lparr>trace = [TargetConnect], links = ls\<rparr>)))))"
  using assms
  by (auto simp: Run_def runWith_def prepare_def connectSource_def connectTarget_def
      validatePhase_def pathsPhase_def gatherStorage_def gatherOVS_def fail_def now_def emit_def
      split: sum.splits prod.splits)

theorem cluster_member_calls_nil_source_client_witness:
  "flagClusterMember memberEnv
   \<and> Run memberEnv [lxdSource] [incusTarget] Map.empty =
       Some (Panicked, \<lparr>trace = [TargetConnect], links = Map.empty\<rparr>)"
  using cluster_member_calls_nil_source_client [of memberEnv lxdSource emptyWorld noRewrites
      "[lxdSource]" "[incusTarget]" Map.empty]
  by (simp add: memberEnv_def primaryEnv_def discover_def lxdSource_def incusTarget_def)

text \<open>
  C2. The claim lets a run with \<^verbatim>\<open>--cluster-member\<close> perform the stop, the wipe, the
  move, the database migration, the cleanup, the start and the check of the target. The
  code does not get there: on a host where the run is root, a source and a target are
  present and every call succeeds, the run with the flag connects to the target and then
  ends in the call of line 241 on the nil source client. The connection to the target
  is the only call it has made; none of the phases the claim lists after it is
  performed, and the run does not return.
\<close>

theorem cluster_member_run_ends_at_line_241:
  "flagClusterMember memberEnv
   \<and> map_option fst (Run memberEnv [lxdSource] [incusTarget] Map.empty) = Some Panicked
   \<and> map_option (trace \<circ> snd) (Run memberEnv [lxdSource] [incusTarget] Map.empty) =
       Some [TargetConnect]
   \<and> map_option (\<lambda>r. SourceStop \<in> set (trace (snd r)))
       (Run memberEnv [lxdSource] [incusTarget] Map.empty) = Some False
   \<and> map_option (\<lambda>r. TargetStart \<in> set (trace (snd r)))
       (Run memberEnv [lxdSource] [incusTarget] Map.empty) = Some False"
proof -
  have "Run memberEnv [lxdSource] [incusTarget] Map.empty =
      Some (Panicked, \<lparr>trace = [TargetConnect], links = Map.empty\<rparr>)"
    by (simp add: Run_def runWith_def prepare_def discover_def connectSource_def connectTarget_def
        validatePhase_def pathsPhase_def gatherStorage_def gatherOVS_def memberEnv_def primaryEnv_def
        lxdSource_def incusTarget_def now_def emit_def)
  then show ?thesis
    by (simp add: memberEnv_def)
qed

end
